theory Spec2Isabelle
  imports Main "HOL-Library.Word"
begin

section \<open>Qt strings and numbers as the parameter classes use them\<close>

text \<open>
  The parameter editor (\<^verbatim>\<open>parameditor.h\<close>) is written against Qt. The Qt calls it makes are
  modelled by what Qt documents for them: \<^verbatim>\<open>QString::toInt\<close> returns 0 when the text is
  no decimal \<^verbatim>\<open>int\<close>, \<^verbatim>\<open>QString::number\<close> prints a decimal, \<^verbatim>\<open>QString::split\<close> with
  \<^verbatim>\<open>Qt::SkipEmptyParts\<close> drops the empty fields. A C++ \<^verbatim>\<open>int\<close> is an \<open>int\<close> between
  \<open>INT_MIN\<close> and \<open>INT_MAX\<close>: the classes copy and compare such values and never add them.
\<close>

definition INT_MIN :: int where
  "INT_MIN = - 2147483648"

definition INT_MAX :: int where
  "INT_MAX = 2147483647"

definition isSpace :: "char \<Rightarrow> bool" where
  "isSpace c = (of_char c \<in> {9, 10, 11, 12, 13, 32, 133, 160 :: nat})"

definition isDigit :: "char \<Rightarrow> bool" where
  "isDigit c = (48 \<le> (of_char c :: nat) \<and> (of_char c :: nat) \<le> 57)"

definition trimmed :: "string \<Rightarrow> string" where
  "trimmed s = rev (dropWhile isSpace (rev (dropWhile isSpace s)))"

definition digitsValue :: "string \<Rightarrow> int" where
  "digitsValue ds = foldl (\<lambda>acc c. 10 * acc + (int (of_char c) - 48)) 0 ds"

text \<open>The decimal number a text spells, or None: an optional sign and at least one digit.\<close>

definition parseDecimal :: "string \<Rightarrow> int option" where
  "parseDecimal s =
     (case trimmed s of
        [] \<Rightarrow> None
      | c # cs \<Rightarrow>
          (let (neg, ds) = (if c = CHR ''-'' then (True, cs)
                            else if c = CHR ''+'' then (False, cs) else (False, c # cs))
           in if ds = [] \<or> \<not> list_all isDigit ds then None
              else Some (if neg then - digitsValue ds else digitsValue ds)))"

text \<open>\<^verbatim>\<open>QString::toInt()\<close>: 0 when the conversion fails or the number is no \<^verbatim>\<open>int\<close>.\<close>

definition toInt :: "string \<Rightarrow> int" where
  "toInt s =
     (case parseDecimal s of
        None \<Rightarrow> 0
      | Some v \<Rightarrow> if INT_MIN \<le> v \<and> v \<le> INT_MAX then v else 0)"

fun digitsOf :: "nat \<Rightarrow> string" where
  "digitsOf n =
     (if n < 10 then [char_of (48 + n)] else digitsOf (n div 10) @ [char_of (48 + n mod 10)])"

text \<open>\<^verbatim>\<open>QString::number(int)\<close>.\<close>

definition number :: "int \<Rightarrow> string" where
  "number v = (if v < 0 then CHR ''-'' # digitsOf (nat (- v)) else digitsOf (nat v))"

text \<open>\<^verbatim>\<open>QString::split(",", Qt::SkipEmptyParts)\<close>: the non-empty fields between commas.\<close>

fun splitFields :: "string \<Rightarrow> string \<Rightarrow> string list" where
  "splitFields cur [] = [cur]"
| "splitFields cur (c # cs) =
     (if c = CHR '','' then cur # splitFields [] cs else splitFields (cur @ [c]) cs)"

definition splitSkipEmpty :: "string \<Rightarrow> string list" where
  "splitSkipEmpty s = filter (\<lambda>f. f \<noteq> []) (splitFields [] s)"

section \<open>The XML stream reader and the attributes of an element\<close>

type_synonym attributes = "(string \<times> string) list"

definition hasAttribute :: "attributes \<Rightarrow> string \<Rightarrow> bool" where
  "hasAttribute as n = (map_of as n \<noteq> None)"

text \<open>\<^verbatim>\<open>QXmlStreamAttributes::value(name)\<close>: the empty text when the attribute is absent.\<close>

definition attrValue :: "attributes \<Rightarrow> string \<Rightarrow> string" where
  "attrValue as n = (case map_of as n of None \<Rightarrow> [] | Some v \<Rightarrow> v)"

datatype token =
    NoToken
  | Invalid
  | StartDocument
  | EndDocument
  | StartElement string attributes
  | EndElement string
  | Characters string

text \<open>
  A \<^verbatim>\<open>QXmlStreamReader\<close> over a document: the token it stands on and the tokens still to
  read. \<^verbatim>\<open>readNext\<close> moves to the next token; past the last one, and after an error, the
  reader stands on \<open>Invalid\<close>.
\<close>

record reader =
  tok :: token
  pending :: "token list"

definition newReader :: "token list \<Rightarrow> reader" where
  "newReader ts = \<lparr>tok = NoToken, pending = ts\<rparr>"

definition readNext :: "reader \<Rightarrow> reader" where
  "readNext r =
     (if tok r = Invalid then r
      else case pending r of
             [] \<Rightarrow> r\<lparr>tok := Invalid\<rparr>
           | t # ts \<Rightarrow> \<lparr>tok = t, pending = ts\<rparr>)"

definition atEnd :: "reader \<Rightarrow> bool" where
  "atEnd r = (tok r = Invalid \<or> (tok r = EndDocument \<and> pending r = []))"

definition isStartElement :: "reader \<Rightarrow> bool" where
  "isStartElement r = (case tok r of StartElement n as \<Rightarrow> True | _ \<Rightarrow> False)"

text \<open>\<^verbatim>\<open>reader.name()\<close>: the tag of a start or end element, empty on every other token.\<close>

definition readerName :: "reader \<Rightarrow> string" where
  "readerName r = (case tok r of StartElement n as \<Rightarrow> n | EndElement n \<Rightarrow> n | _ \<Rightarrow> [])"

text \<open>\<^verbatim>\<open>reader.attributes()\<close>: those of a start element, none on every other token.\<close>

definition readerAttributes :: "reader \<Rightarrow> attributes" where
  "readerAttributes r = (case tok r of StartElement n as \<Rightarrow> as | _ \<Rightarrow> [])"

section \<open>Qt value types\<close>

text \<open>
  The values of the Qt types the parameters edit. A \<^verbatim>\<open>double\<close> and a \<^verbatim>\<open>float\<close> are their
  IEEE bit patterns, a \<^verbatim>\<open>QDate\<close> its Julian day, a \<^verbatim>\<open>QTime\<close> its milliseconds since
  midnight, a \<^verbatim>\<open>QFont\<close> its description. What Qt computes on them (comparing and rounding
  floating-point numbers, printing and parsing numbers, colours, fonts and dates) is not
  defined here: it is taken from a record of Qt functions, \<open>qt\<close> below.
\<close>

datatype qdouble = Double "64 word"

datatype qfloat = Float "32 word"

datatype qcolor = InvalidColor | Rgba nat nat nat nat

datatype qfont = QFont string

datatype qdate = QDate int

datatype qtime = QTime int

datatype qdatetime = QDateTime qdate qtime

text \<open>\<^verbatim>\<open>QVariant\<close>: a value of any of the types, as a property of a \<^verbatim>\<open>QObject\<close> holds it.\<close>

datatype QVariant =
    VInvalid
  | VInt int
  | VDouble qdouble
  | VFloat qfloat
  | VBool bool
  | VString string
  | VColor qcolor
  | VFont qfont
  | VStringList "string list"
  | VDate qdate
  | VTime qtime
  | VDateTime qdatetime
  | VRange qdouble qdouble
  | VPoint int int
  | VSize int int
  | VRect int int int int
  | VOther string

definition isValid :: "qcolor \<Rightarrow> bool" where
  "isValid c = (c \<noteq> InvalidColor)"

definition dzero :: qdouble where
  "dzero = Double 0"

text \<open>\<open>x != 0\<close> on a double: both zeros compare equal to 0.\<close>

definition nonZero :: "qdouble \<Rightarrow> bool" where
  "nonZero d = (case d of Double w \<Rightarrow> take_bit 63 w \<noteq> 0)"

record qt =
  dless :: "qdouble \<Rightarrow> qdouble \<Rightarrow> bool"
  dround :: "qdouble \<Rightarrow> qdouble"
  toDouble :: "string \<Rightarrow> qdouble"
  toFloat :: "string \<Rightarrow> qfloat"
  numberD :: "qdouble \<Rightarrow> string"
  numberF6 :: "qdouble \<Rightarrow> string"
  floatToDouble :: "qfloat \<Rightarrow> qdouble"
  doubleToFloat :: "qdouble \<Rightarrow> qfloat"
  doubleToInt :: "qdouble \<Rightarrow> int"
  colorName :: "qcolor \<Rightarrow> string"
  colorFromString :: "string \<Rightarrow> qcolor"
  fontToString :: "qfont \<Rightarrow> string"
  fontFromString :: "qfont \<Rightarrow> string \<Rightarrow> qfont"
  fontLabel :: "qfont \<Rightarrow> string"
  dateIsValid :: "qdate \<Rightarrow> bool"
  dateToISO :: "qdate \<Rightarrow> string"
  dateFromISO :: "string \<Rightarrow> qdate"
  dateInEdit :: "qdate \<Rightarrow> qdate"
  dateEditInit :: "qdate \<Rightarrow> qdate"
  timeIsValid :: "qtime \<Rightarrow> bool"
  timeToISO :: "qtime \<Rightarrow> string"
  timeFromISO :: "string \<Rightarrow> qtime"
  timeEditInit :: "qtime \<Rightarrow> qtime"
  dateTimeIsValid :: "qdatetime \<Rightarrow> bool"
  dateTimeToISO :: "qdatetime \<Rightarrow> string"
  dateTimeFromISO :: "string \<Rightarrow> qdatetime"
  dateTimeInEdit :: "qdatetime \<Rightarrow> qdatetime"
  dateTimeEditInit :: "qdatetime \<Rightarrow> qdatetime"
  variantToString :: "QVariant \<Rightarrow> string"
  variantToDouble :: "QVariant \<Rightarrow> qdouble"

text \<open>
  The fields are the Qt functions of the same purpose: \<open>dless\<close> is \<open><\<close> on doubles,
  \<open>dround\<close> the rounding of a \<^verbatim>\<open>QDoubleSpinBox\<close> to its decimals, \<open>numberD\<close> is
  \<^verbatim>\<open>QString::number(double)\<close> and \<open>numberF6\<close> is \<^verbatim>\<open>QString::number(double, 'f', 6)\<close>,
  \<open>colorName\<close> is \<^verbatim>\<open>QColor::name()\<close> and \<open>colorFromString\<close> the constructor
  \<^verbatim>\<open>QColor(QString)\<close>, \<open>fontFromString f s\<close> is the font \<open>f\<close> after \<^verbatim>\<open>f.fromString(s)\<close>,
  \<open>fontLabel f\<close> is \<^verbatim>\<open>f.family() + " " + QString::number(f.pointSize())\<close>, the
  \<open>ToISO\<close> and \<open>FromISO\<close> functions are \<^verbatim>\<open>toString(Qt::ISODate)\<close> and
  \<^verbatim>\<open>fromString(s, Qt::ISODate)\<close>, \<open>dateInEdit\<close> and \<open>dateTimeInEdit\<close> bound a valid date
  to the range of a date edit, the \<open>EditInit\<close> functions give the value a new edit shows
  when it is constructed on a value, and \<open>variantToString\<close>, \<open>variantToDouble\<close> are
  \<^verbatim>\<open>QVariant::toString()\<close> and \<^verbatim>\<open>QVariant::toDouble()\<close>.
\<close>

section \<open>Editor controls\<close>

text \<open>
  \<^verbatim>\<open>QSpinBox\<close>: a value kept inside an inclusive range. \<^verbatim>\<open>setRange\<close> raises a maximum that
  is below the minimum to the minimum and re-bounds the value; \<^verbatim>\<open>setValue\<close> bounds its
  argument. A new spin box has the range 0 to 99 and the value 0.
\<close>

record QSpinBox =
  minimum :: int
  maximum :: int
  spinValue :: int

definition bound :: "int \<Rightarrow> int \<Rightarrow> int \<Rightarrow> int" where
  "bound lo v hi = (let v1 = (if v < lo then lo else v) in if hi < v1 then hi else v1)"

definition newSpinBox :: QSpinBox where
  "newSpinBox = \<lparr>minimum = 0, maximum = 99, spinValue = 0\<rparr>"

definition setRange :: "int \<Rightarrow> int \<Rightarrow> QSpinBox \<Rightarrow> QSpinBox" where
  "setRange lo hi s =
     (let hi' = (if lo < hi then hi else lo)
      in \<lparr>minimum = lo, maximum = hi', spinValue = bound lo (spinValue s) hi'\<rparr>)"

definition setValue :: "int \<Rightarrow> QSpinBox \<Rightarrow> QSpinBox" where
  "setValue v s = s\<lparr>spinValue := bound (minimum s) v (maximum s)\<rparr>"

text \<open>
  \<^verbatim>\<open>QDoubleSpinBox\<close>: as \<^verbatim>\<open>QSpinBox\<close>, on doubles rounded to the decimals of the box. A
  new box has the range 0.0 to 99.99 and the value 0.0.
\<close>

record QDoubleSpinBox =
  dminimum :: qdouble
  dmaximum :: qdouble
  dvalue :: qdouble

definition dbound :: "qt \<Rightarrow> qdouble \<Rightarrow> qdouble \<Rightarrow> qdouble \<Rightarrow> qdouble" where
  "dbound q lo v hi = (let v1 = (if dless q v lo then lo else v) in if dless q hi v1 then hi else v1)"

definition newDoubleSpinBox :: QDoubleSpinBox where
  "newDoubleSpinBox =
     \<lparr>dminimum = dzero, dmaximum = Double 0x4058FF5C28F5C28F, dvalue = dzero\<rparr>"

definition setRangeD :: "qt \<Rightarrow> qdouble \<Rightarrow> qdouble \<Rightarrow> QDoubleSpinBox \<Rightarrow> QDoubleSpinBox" where
  "setRangeD q lo hi s =
     (let lo' = dround q lo; hi0 = dround q hi;
          hi' = (if dless q lo' hi0 then hi0 else lo')
      in \<lparr>dminimum = lo', dmaximum = hi', dvalue = dbound q lo' (dvalue s) hi'\<rparr>)"

definition setValueD :: "qt \<Rightarrow> qdouble \<Rightarrow> QDoubleSpinBox \<Rightarrow> QDoubleSpinBox" where
  "setValueD q v s = s\<lparr>dvalue := dbound q (dminimum s) (dround q v) (dmaximum s)\<rparr>"

text \<open>\<^verbatim>\<open>QLineEdit\<close>: its text, cut to the maximum length of a line edit (32767).\<close>

definition setText :: "string \<Rightarrow> string" where
  "setText t = take 32767 t"

text \<open>
  \<^verbatim>\<open>QDateEdit\<close>, \<^verbatim>\<open>QTimeEdit\<close>, \<^verbatim>\<open>QDateTimeEdit\<close>: setting an invalid value is ignored,
  a valid date is bounded to the range of the edit.
\<close>

definition setDate :: "qt \<Rightarrow> qdate \<Rightarrow> qdate \<Rightarrow> qdate" where
  "setDate q d cur = (if dateIsValid q d then dateInEdit q d else cur)"

definition setTime :: "qt \<Rightarrow> qtime \<Rightarrow> qtime \<Rightarrow> qtime" where
  "setTime q t cur = (if timeIsValid q t then t else cur)"

definition setDateTime :: "qt \<Rightarrow> qdatetime \<Rightarrow> qdatetime \<Rightarrow> qdatetime" where
  "setDateTime q d cur = (if dateTimeIsValid q d then dateTimeInEdit q d else cur)"

text \<open>
  \<^verbatim>\<open>QComboBox\<close>: the item texts, the current index (-1 for no selection) and, when the box is
  editable, the text of its line edit. \<^verbatim>\<open>setCurrentIndex\<close> with an index that names no item
  selects nothing; an editable box then shows the text of the current item. Items added to
  an empty box with no selection make the first item current. \<^verbatim>\<open>clear\<close> removes the rows,
  which ends a selection and blanks the line edit; it does nothing on an empty box.
\<close>

record QComboBox =
  items :: "string list"
  currentIndex :: int
  editable :: bool
  editText :: string

definition newComboBox :: QComboBox where
  "newComboBox = \<lparr>items = [], currentIndex = - 1, editable = False, editText = []\<rparr>"

definition itemText :: "QComboBox \<Rightarrow> int \<Rightarrow> string" where
  "itemText c i = (if 0 \<le> i \<and> i < int (length (items c)) then items c ! nat i else [])"

definition setCurrentIndex :: "int \<Rightarrow> QComboBox \<Rightarrow> QComboBox" where
  "setCurrentIndex i c =
     (let j = (if 0 \<le> i \<and> i < int (length (items c)) then i else - 1)
      in c\<lparr>currentIndex := j,
           editText := (if editable c then itemText c j else editText c)\<rparr>)"

definition addItems :: "string list \<Rightarrow> QComboBox \<Rightarrow> QComboBox" where
  "addItems xs c =
     (if xs = [] then c
      else if items c = [] \<and> currentIndex c = - 1
           then setCurrentIndex 0 (c\<lparr>items := xs\<rparr>)
           else c\<lparr>items := items c @ xs\<rparr>)"

definition clear :: "QComboBox \<Rightarrow> QComboBox" where
  "clear c =
     (if items c = [] then c
      else c\<lparr>items := [], currentIndex := - 1,
             editText := (if editable c \<and> currentIndex c \<noteq> - 1 then [] else editText c)\<rparr>)"

text \<open>\<^verbatim>\<open>currentText()\<close>: the line edit of an editable box, else the current item's text.\<close>

definition currentText :: "QComboBox \<Rightarrow> string" where
  "currentText c = (if editable c then editText c else itemText c (currentIndex c))"

section \<open>The parameter classes\<close>

text \<open>
  One constructor for each class derived from \<^verbatim>\<open>ParamBase\<close>. The arguments are, in this
  order: \<^verbatim>\<open>name\<close>, the variable \<^verbatim>\<open>ptr\<close> points to (the value slot of the host, written
  only through \<^verbatim>\<open>ptr\<close>), \<^verbatim>\<open>defVal\<close>, and the state of the editor control. \<^verbatim>\<open>ComboParam\<close>
  has its option list after the name, \<^verbatim>\<open>FontParam\<close> its \<^verbatim>\<open>currentFont\<close> last. The control of
  a \<^verbatim>\<open>ColorParam\<close> is a button whose style sheet names its background colour: the state
  kept is that name, and the colour of the button's palette is the colour the name
  stands for, as the style sheet of a shown widget sets it. Tool tips, step sizes, display
  formats and layout hold no value and are left out.
\<close>

datatype ParamBase =
    DoubleParam string qdouble qdouble QDoubleSpinBox
  | IntParam string int int QSpinBox
  | StringParam string string string string
  | PasswordParam string string string string
  | ComboParam string "string list" int int QComboBox
  | ColorParam string qcolor qcolor string
  | FilePathParam string string string string
  | DirParam string string string string
  | BoolParam string bool bool bool
  | FontParam string qfont qfont string qfont
  | DateTimeParam string qdatetime qdatetime qdatetime
  | RangeParam string "qdouble \<times> qdouble" "qdouble \<times> qdouble" QDoubleSpinBox QDoubleSpinBox
  | StringListParam string "string list" "string list" QComboBox
  | DateParam string qdate qdate qdate
  | TimeParam string qtime qtime qtime
  | PointParam string "int \<times> int" "int \<times> int" QSpinBox QSpinBox
  | SizeParam string "int \<times> int" "int \<times> int" QSpinBox QSpinBox
  | RectParam string "int \<times> int \<times> int \<times> int" "int \<times> int \<times> int \<times> int"
      QSpinBox QSpinBox QSpinBox QSpinBox
  | VariantParam string QVariant QVariant string
  | FloatParam string qfloat qfloat QDoubleSpinBox

fun name :: "ParamBase \<Rightarrow> string" where
  "name (DoubleParam n p d s) = n"
| "name (IntParam n p d s) = n"
| "name (StringParam n p d e) = n"
| "name (PasswordParam n p d e) = n"
| "name (ComboParam n os p d c) = n"
| "name (ColorParam n p d b) = n"
| "name (FilePathParam n p d e) = n"
| "name (DirParam n p d e) = n"
| "name (BoolParam n p d c) = n"
| "name (FontParam n p d b f) = n"
| "name (DateTimeParam n p d e) = n"
| "name (RangeParam n p d s1 s2) = n"
| "name (StringListParam n p d c) = n"
| "name (DateParam n p d e) = n"
| "name (TimeParam n p d e) = n"
| "name (PointParam n p d xs ys) = n"
| "name (SizeParam n p d ws hs) = n"
| "name (RectParam n p d xs ys ws hs) = n"
| "name (VariantParam n p d e) = n"
| "name (FloatParam n p d s) = n"

text \<open>The value slot of a parameter, \<^verbatim>\<open>*ptr\<close>, as the host reads it.\<close>

fun slot :: "ParamBase \<Rightarrow> QVariant" where
  "slot (DoubleParam n p d s) = VDouble p"
| "slot (IntParam n p d s) = VInt p"
| "slot (StringParam n p d e) = VString p"
| "slot (PasswordParam n p d e) = VString p"
| "slot (ComboParam n os p d c) = VInt p"
| "slot (ColorParam n p d b) = VColor p"
| "slot (FilePathParam n p d e) = VString p"
| "slot (DirParam n p d e) = VString p"
| "slot (BoolParam n p d c) = VBool p"
| "slot (FontParam n p d b f) = VFont p"
| "slot (DateTimeParam n p d e) = VDateTime p"
| "slot (RangeParam n p d s1 s2) = VRange (fst p) (snd p)"
| "slot (StringListParam n p d c) = VStringList p"
| "slot (DateParam n p d e) = VDate p"
| "slot (TimeParam n p d e) = VTime p"
| "slot (PointParam n p d xs ys) = VPoint (fst p) (snd p)"
| "slot (SizeParam n p d ws hs) = VSize (fst p) (snd p)"
| "slot (RectParam n p d xs ys ws hs) =
     (case p of (x, y, w, h) \<Rightarrow> VRect x y w h)"
| "slot (VariantParam n p d e) = p"
| "slot (FloatParam n p d s) = VFloat p"

text \<open>\<^verbatim>\<open>apply()\<close> of each class.\<close>

fun apply_param :: "qt \<Rightarrow> ParamBase \<Rightarrow> ParamBase" where
  "apply_param q (DoubleParam n p d s) = DoubleParam n (dvalue s) d s"
| "apply_param q (IntParam n p d s) = IntParam n (spinValue s) d s"
| "apply_param q (StringParam n p d e) = StringParam n e d e"
| "apply_param q (PasswordParam n p d e) = PasswordParam n e d e"
| "apply_param q (ComboParam n os p d c) = ComboParam n os (currentIndex c) d c"
| "apply_param q (ColorParam n p d b) = ColorParam n (colorFromString q b) d b"
| "apply_param q (FilePathParam n p d e) = FilePathParam n e d e"
| "apply_param q (DirParam n p d e) = DirParam n e d e"
| "apply_param q (BoolParam n p d c) = BoolParam n c d c"
| "apply_param q (FontParam n p d b f) = FontParam n f d b f"
| "apply_param q (DateTimeParam n p d e) = DateTimeParam n e d e"
| "apply_param q (RangeParam n p d s1 s2) = RangeParam n (dvalue s1, dvalue s2) d s1 s2"
| "apply_param q (StringListParam n p d c) = StringListParam n (splitSkipEmpty (currentText c)) d c"
| "apply_param q (DateParam n p d e) = DateParam n e d e"
| "apply_param q (TimeParam n p d e) = TimeParam n e d e"
| "apply_param q (PointParam n p d xs ys) = PointParam n (spinValue xs, spinValue ys) d xs ys"
| "apply_param q (SizeParam n p d ws hs) = SizeParam n (spinValue ws, spinValue hs) d ws hs"
| "apply_param q (RectParam n p d xs ys ws hs) =
     RectParam n (spinValue xs, spinValue ys, spinValue ws, spinValue hs) d xs ys ws hs"
| "apply_param q (VariantParam n p d e) = VariantParam n (VString e) d e"
| "apply_param q (FloatParam n p d s) = FloatParam n (doubleToFloat q (dvalue s)) d s"

text \<open>\<^verbatim>\<open>reset()\<close> of each class.\<close>

fun reset :: "qt \<Rightarrow> ParamBase \<Rightarrow> ParamBase" where
  "reset q (DoubleParam n p d s) = DoubleParam n p d (setValueD q d s)"
| "reset q (IntParam n p d s) = IntParam n p d (setValue d s)"
| "reset q (StringParam n p d e) = StringParam n p d (setText d)"
| "reset q (PasswordParam n p d e) = PasswordParam n p d (setText d)"
| "reset q (ComboParam n os p d c) = ComboParam n os p d (setCurrentIndex d c)"
| "reset q (ColorParam n p d b) = ColorParam n p d (colorName q d)"
| "reset q (FilePathParam n p d e) = FilePathParam n p d (setText d)"
| "reset q (DirParam n p d e) = DirParam n p d (setText d)"
| "reset q (BoolParam n p d c) = BoolParam n p d d"
| "reset q (FontParam n p d b f) = FontParam n p d (fontLabel q d) d"
| "reset q (DateTimeParam n p d e) = DateTimeParam n p d (setDateTime q d e)"
| "reset q (RangeParam n p d s1 s2) =
     RangeParam n p d (setValueD q (fst d) s1) (setValueD q (snd d) s2)"
| "reset q (StringListParam n p d c) = StringListParam n p d (addItems d (clear c))"
| "reset q (DateParam n p d e) = DateParam n p d (setDate q d e)"
| "reset q (TimeParam n p d e) = TimeParam n p d (setTime q d e)"
| "reset q (PointParam n p d xs ys) =
     PointParam n p d (setValue (fst d) xs) (setValue (snd d) ys)"
| "reset q (SizeParam n p d ws hs) =
     SizeParam n p d (setValue (fst d) ws) (setValue (snd d) hs)"
| "reset q (RectParam n p d xs ys ws hs) =
     (case d of (x, y, w, h) \<Rightarrow>
        RectParam n p d (setValue x xs) (setValue y ys) (setValue w ws) (setValue h hs))"
| "reset q (VariantParam n p d e) = VariantParam n p d (setText (variantToString q d))"
| "reset q (FloatParam n p d s) = FloatParam n p d (setValueD q (floatToDouble q d) s)"

section \<open>Saving and loading a parameter\<close>

text \<open>
  \<^verbatim>\<open>QXmlStreamWriter\<close> with auto-formatting: the output is kept as the tokens a reader of
  the written text meets. An element with no content is written as an empty-element tag,
  which reads as a start and an end element; a child element starts on a new, indented
  line, which reads as a whitespace token.
\<close>

record writer =
  out :: "token list"
  tagStack :: "string list"
  lastWasStartElement :: bool

definition newWriter :: writer where
  "newWriter = \<lparr>out = [], tagStack = [], lastWasStartElement = False\<rparr>"

definition indent :: "nat \<Rightarrow> token" where
  "indent k = Characters (CHR 0x0A # replicate (4 * k) CHR '' '')"

definition writeStartDocument :: "writer \<Rightarrow> writer" where
  "writeStartDocument w = w\<lparr>out := out w @ [StartDocument]\<rparr>"

definition writeStartElement :: "string \<Rightarrow> writer \<Rightarrow> writer" where
  "writeStartElement n w =
     \<lparr>out = out w @ (if tagStack w = [] then [] else [indent (length (tagStack w))])
              @ [StartElement n []],
      tagStack = n # tagStack w,
      lastWasStartElement = True\<rparr>"

definition writeAttribute :: "string \<Rightarrow> string \<Rightarrow> writer \<Rightarrow> writer" where
  "writeAttribute k v w =
     (case rev (out w) of
        StartElement n as # ts \<Rightarrow> w\<lparr>out := rev ts @ [StartElement n (as @ [(k, v)])]\<rparr>
      | _ \<Rightarrow> w)"

definition writeEndElement :: "writer \<Rightarrow> writer" where
  "writeEndElement w =
     (case tagStack w of
        [] \<Rightarrow> w
      | n # ns \<Rightarrow>
          \<lparr>out = out w @ (if lastWasStartElement w then [] else [indent (length ns)])
                   @ [EndElement n],
           tagStack = ns,
           lastWasStartElement = False\<rparr>)"

definition writeEndDocument :: "writer \<Rightarrow> writer" where
  "writeEndDocument w = w\<lparr>out := out w @ [EndDocument]\<rparr>"

text \<open>One element with one attribute, and with several: the body of every \<^verbatim>\<open>save\<close>.\<close>

definition writeElement :: "string \<Rightarrow> attributes \<Rightarrow> writer \<Rightarrow> writer" where
  "writeElement n as w =
     writeEndElement (foldl (\<lambda>w' (k, v). writeAttribute k v w') (writeStartElement n w) as)"

text \<open>\<^verbatim>\<open>save(w)\<close> of each class.\<close>

fun save :: "qt \<Rightarrow> ParamBase \<Rightarrow> writer \<Rightarrow> writer" where
  "save q (DoubleParam n p d s) w = writeElement n [(''value'', numberD q (dvalue s))] w"
| "save q (IntParam n p d s) w = writeElement n [(''value'', number (spinValue s))] w"
| "save q (StringParam n p d e) w = writeElement n [(''value'', e)] w"
| "save q (PasswordParam n p d e) w = writeElement n [(''value'', e)] w"
| "save q (ComboParam n os p d c) w = writeElement n [(''index'', number (currentIndex c))] w"
| "save q (ColorParam n p d b) w =
     writeElement n [(''color'', colorName q (colorFromString q b))] w"
| "save q (FilePathParam n p d e) w = writeElement n [(''path'', e)] w"
| "save q (DirParam n p d e) w = writeElement n [(''path'', e)] w"
| "save q (BoolParam n p d c) w =
     writeElement n [(''value'', if c then ''true'' else ''false'')] w"
| "save q (FontParam n p d b f) w = writeElement n [(''value'', fontToString q f)] w"
| "save q (DateTimeParam n p d e) w = writeElement n [(''value'', dateTimeToISO q e)] w"
| "save q (RangeParam n p d s1 s2) w =
     writeElement n [(''min'', numberD q (dvalue s1)), (''max'', numberD q (dvalue s2))] w"
| "save q (StringListParam n p d c) w = writeElement n [(''value'', currentText c)] w"
| "save q (DateParam n p d e) w = writeElement n [(''value'', dateToISO q e)] w"
| "save q (TimeParam n p d e) w = writeElement n [(''value'', timeToISO q e)] w"
| "save q (PointParam n p d xs ys) w =
     writeElement n [(''x'', number (spinValue xs)), (''y'', number (spinValue ys))] w"
| "save q (SizeParam n p d ws hs) w =
     writeElement n [(''width'', number (spinValue ws)), (''height'', number (spinValue hs))] w"
| "save q (RectParam n p d xs ys ws hs) w =
     writeElement n [(''x'', number (spinValue xs)), (''y'', number (spinValue ys)),
                     (''width'', number (spinValue ws)), (''height'', number (spinValue hs))] w"
| "save q (VariantParam n p d e) w = writeElement n [(''value'', e)] w"
| "save q (FloatParam n p d s) w = writeElement n [(''value'', numberF6 q (dvalue s))] w"

text \<open>
  The part of each \<^verbatim>\<open>load(r)\<close> before its \<^verbatim>\<open>r.readNext()\<close>: the control updated from the
  attributes of the token the reader stands on.
\<close>

fun loadAttributes :: "qt \<Rightarrow> attributes \<Rightarrow> ParamBase \<Rightarrow> ParamBase" where
  "loadAttributes q a (DoubleParam n p d s) =
     (if hasAttribute a ''value''
      then DoubleParam n p d (setValueD q (toDouble q (attrValue a ''value'')) s)
      else DoubleParam n p d s)"
| "loadAttributes q a (IntParam n p d s) =
     (if hasAttribute a ''value''
      then IntParam n p d (setValue (toInt (attrValue a ''value'')) s)
      else IntParam n p d s)"
| "loadAttributes q a (StringParam n p d e) =
     (if hasAttribute a ''value''
      then StringParam n p d (setText (attrValue a ''value''))
      else StringParam n p d e)"
| "loadAttributes q a (PasswordParam n p d e) =
     (if hasAttribute a ''value''
      then PasswordParam n p d (setText (attrValue a ''value''))
      else PasswordParam n p d e)"
| "loadAttributes q a (ComboParam n os p d c) =
     (if hasAttribute a ''index''
      then ComboParam n os p d (setCurrentIndex (toInt (attrValue a ''index'')) c)
      else ComboParam n os p d c)"
| "loadAttributes q a (ColorParam n p d b) =
     (if hasAttribute a ''color''
      then ColorParam n p d (colorName q (colorFromString q (attrValue a ''color'')))
      else ColorParam n p d b)"
| "loadAttributes q a (FilePathParam n p d e) =
     (if hasAttribute a ''path''
      then FilePathParam n p d (setText (attrValue a ''path''))
      else FilePathParam n p d e)"
| "loadAttributes q a (DirParam n p d e) =
     (if hasAttribute a ''path''
      then DirParam n p d (setText (attrValue a ''path''))
      else DirParam n p d e)"
| "loadAttributes q a (BoolParam n p d c) =
     (if hasAttribute a ''value''
      then BoolParam n p d (attrValue a ''value'' = ''true'')
      else BoolParam n p d c)"
| "loadAttributes q a (FontParam n p d b f) =
     (if hasAttribute a ''value''
      then (let f' = fontFromString q f (attrValue a ''value'')
            in FontParam n p d (fontLabel q f') f')
      else FontParam n p d b f)"
| "loadAttributes q a (DateTimeParam n p d e) =
     (if hasAttribute a ''value''
      then (let dt = dateTimeFromISO q (attrValue a ''value'')
            in DateTimeParam n p d (if dateTimeIsValid q dt then setDateTime q dt e else e))
      else DateTimeParam n p d e)"
| "loadAttributes q a (RangeParam n p d s1 s2) =
     (if hasAttribute a ''min'' \<and> hasAttribute a ''max''
      then RangeParam n p d (setValueD q (toDouble q (attrValue a ''min'')) s1)
                            (setValueD q (toDouble q (attrValue a ''max'')) s2)
      else RangeParam n p d s1 s2)"
| "loadAttributes q a (StringListParam n p d c) =
     (if hasAttribute a ''value''
      then StringListParam n p d (addItems (splitSkipEmpty (attrValue a ''value'')) (clear c))
      else StringListParam n p d c)"
| "loadAttributes q a (DateParam n p d e) =
     (if hasAttribute a ''value''
      then (let dt = dateFromISO q (attrValue a ''value'')
            in DateParam n p d (if dateIsValid q dt then setDate q dt e else e))
      else DateParam n p d e)"
| "loadAttributes q a (TimeParam n p d e) =
     (if hasAttribute a ''value''
      then (let t = timeFromISO q (attrValue a ''value'')
            in TimeParam n p d (if timeIsValid q t then setTime q t e else e))
      else TimeParam n p d e)"
| "loadAttributes q a (PointParam n p d xs ys) =
     (if hasAttribute a ''x'' \<and> hasAttribute a ''y''
      then PointParam n p d (setValue (toInt (attrValue a ''x'')) xs)
                            (setValue (toInt (attrValue a ''y'')) ys)
      else PointParam n p d xs ys)"
| "loadAttributes q a (SizeParam n p d ws hs) =
     (if hasAttribute a ''width'' \<and> hasAttribute a ''height''
      then SizeParam n p d (setValue (toInt (attrValue a ''width'')) ws)
                           (setValue (toInt (attrValue a ''height'')) hs)
      else SizeParam n p d ws hs)"
| "loadAttributes q a (RectParam n p d xs ys ws hs) =
     (if hasAttribute a ''x'' \<and> hasAttribute a ''y''
         \<and> hasAttribute a ''width'' \<and> hasAttribute a ''height''
      then RectParam n p d (setValue (toInt (attrValue a ''x'')) xs)
                           (setValue (toInt (attrValue a ''y'')) ys)
                           (setValue (toInt (attrValue a ''width'')) ws)
                           (setValue (toInt (attrValue a ''height'')) hs)
      else RectParam n p d xs ys ws hs)"
| "loadAttributes q a (VariantParam n p d e) =
     (if hasAttribute a ''value''
      then VariantParam n p d (setText (attrValue a ''value''))
      else VariantParam n p d e)"
| "loadAttributes q a (FloatParam n p d s) =
     (if hasAttribute a ''value''
      then FloatParam n p d (setValueD q (floatToDouble q (toFloat q (attrValue a ''value''))) s)
      else FloatParam n p d s)"

text \<open>
  \<^verbatim>\<open>load(r)\<close>: every class reads the attributes and then calls \<^verbatim>\<open>r.readNext()\<close> on the
  reader it was given, whatever it found.
\<close>

definition load :: "qt \<Rightarrow> ParamBase \<Rightarrow> reader \<Rightarrow> ParamBase \<times> reader" where
  "load q p r = (loadAttributes q (readerAttributes r) p, readNext r)"

section \<open>Constructing a parameter\<close>

text \<open>The constructors: \<open>p\<close> is the value of the variable the pointer argument points to.\<close>

definition newDoubleParam :: "qt \<Rightarrow> string \<Rightarrow> qdouble \<Rightarrow> qdouble \<Rightarrow> qdouble \<Rightarrow> ParamBase" where
  "newDoubleParam q n p lo hi =
     DoubleParam n p p (setValueD q p (setRangeD q lo hi newDoubleSpinBox))"

definition newIntParam :: "string \<Rightarrow> int \<Rightarrow> int \<Rightarrow> int \<Rightarrow> ParamBase" where
  "newIntParam n p lo hi = IntParam n p p (setValue p (setRange lo hi newSpinBox))"

definition newStringParam :: "string \<Rightarrow> string \<Rightarrow> string \<Rightarrow> ParamBase" where
  "newStringParam n p def = StringParam n p def (setText p)"

definition newPasswordParam :: "string \<Rightarrow> string \<Rightarrow> string \<Rightarrow> ParamBase" where
  "newPasswordParam n p def = PasswordParam n p def (setText p)"

definition newComboParam :: "string \<Rightarrow> string list \<Rightarrow> int \<Rightarrow> int \<Rightarrow> ParamBase" where
  "newComboParam n opts p defIndex =
     ComboParam n opts p defIndex (setCurrentIndex p (addItems opts newComboBox))"

definition newColorParam :: "qt \<Rightarrow> string \<Rightarrow> qcolor \<Rightarrow> qcolor \<Rightarrow> ParamBase" where
  "newColorParam q n p def = ColorParam n p def (colorName q p)"

definition newFilePathParam :: "string \<Rightarrow> string \<Rightarrow> string \<Rightarrow> ParamBase" where
  "newFilePathParam n p def = FilePathParam n p def (setText p)"

definition newDirParam :: "string \<Rightarrow> string \<Rightarrow> string \<Rightarrow> ParamBase" where
  "newDirParam n p def = DirParam n p def (setText p)"

definition newBoolParam :: "string \<Rightarrow> bool \<Rightarrow> bool \<Rightarrow> ParamBase" where
  "newBoolParam n p def = BoolParam n p def p"

definition newFontParam :: "qt \<Rightarrow> string \<Rightarrow> qfont \<Rightarrow> qfont \<Rightarrow> ParamBase" where
  "newFontParam q n p def = FontParam n p def (fontLabel q p) p"

definition newDateTimeParam :: "qt \<Rightarrow> string \<Rightarrow> qdatetime \<Rightarrow> qdatetime \<Rightarrow> ParamBase" where
  "newDateTimeParam q n p def = DateTimeParam n p def (dateTimeEditInit q p)"

definition newRangeParam ::
  "qt \<Rightarrow> string \<Rightarrow> qdouble \<times> qdouble \<Rightarrow> qdouble \<Rightarrow> qdouble \<Rightarrow> qdouble \<times> qdouble \<Rightarrow> ParamBase" where
  "newRangeParam q n p globalMin globalMax def =
     RangeParam n p def
       (setValueD q (fst p) (setRangeD q globalMin globalMax newDoubleSpinBox))
       (setValueD q (snd p) (setRangeD q globalMin globalMax newDoubleSpinBox))"

definition newStringListParam :: "string \<Rightarrow> string list \<Rightarrow> string list \<Rightarrow> ParamBase" where
  "newStringListParam n p def =
     StringListParam n p def (addItems p (newComboBox\<lparr>editable := True\<rparr>))"

definition newDateParam :: "qt \<Rightarrow> string \<Rightarrow> qdate \<Rightarrow> qdate \<Rightarrow> ParamBase" where
  "newDateParam q n p def = DateParam n p def (dateEditInit q p)"

definition newTimeParam :: "qt \<Rightarrow> string \<Rightarrow> qtime \<Rightarrow> qtime \<Rightarrow> ParamBase" where
  "newTimeParam q n p def = TimeParam n p def (timeEditInit q p)"

definition newPointParam :: "string \<Rightarrow> int \<times> int \<Rightarrow> int \<times> int \<Rightarrow> ParamBase" where
  "newPointParam n p def =
     PointParam n p def
       (setValue (fst p) (setRange INT_MIN INT_MAX newSpinBox))
       (setValue (snd p) (setRange INT_MIN INT_MAX newSpinBox))"

definition newSizeParam :: "string \<Rightarrow> int \<times> int \<Rightarrow> int \<times> int \<Rightarrow> ParamBase" where
  "newSizeParam n p def =
     SizeParam n p def
       (setValue (fst p) (setRange 0 INT_MAX newSpinBox))
       (setValue (snd p) (setRange 0 INT_MAX newSpinBox))"

definition newRectParam ::
  "string \<Rightarrow> int \<times> int \<times> int \<times> int \<Rightarrow> int \<times> int \<times> int \<times> int \<Rightarrow> ParamBase" where
  "newRectParam n p def =
     (case p of (x, y, w, h) \<Rightarrow>
        RectParam n p def
          (setValue x (setRange INT_MIN INT_MAX newSpinBox))
          (setValue y (setRange INT_MIN INT_MAX newSpinBox))
          (setValue w (setRange 0 INT_MAX newSpinBox))
          (setValue h (setRange 0 INT_MAX newSpinBox)))"

definition newVariantParam :: "qt \<Rightarrow> string \<Rightarrow> QVariant \<Rightarrow> QVariant \<Rightarrow> ParamBase" where
  "newVariantParam q n p def = VariantParam n p def (setText (variantToString q p))"

definition newFloatParam :: "qt \<Rightarrow> string \<Rightarrow> qfloat \<Rightarrow> qfloat \<Rightarrow> qfloat \<Rightarrow> ParamBase" where
  "newFloatParam q n p lo hi =
     FloatParam n p p
       (setValueD q (floatToDouble q p)
          (setRangeD q (floatToDouble q lo) (floatToDouble q hi) newDoubleSpinBox))"

section \<open>What the user does to a control\<close>

text \<open>
  The user's actions on the row of a parameter. Typing, stepping and picking go through the
  control, which bounds what it takes; three of them run code of the editor: the click on
  the button of a \<^verbatim>\<open>ColorParam\<close> or a \<^verbatim>\<open>FontParam\<close> (with the result of the dialog it
  opens), the BROWSE button (with the path the dialog returns, empty when cancelled), and
  the DEF button, which calls \<^verbatim>\<open>reset()\<close>. Confirming the text typed into the editable
  box of a \<^verbatim>\<open>StringListParam\<close>, which makes it an item, is not among the actions.
\<close>

datatype userAction =
    TypeText string
  | SpinTo nat int
  | DSpinTo nat qdouble
  | Toggle bool
  | Select int
  | PickColor qcolor
  | PickFont bool qfont
  | PickDate qdate
  | PickTime qtime
  | PickDateTime qdatetime
  | BrowseResult string
  | PressDef

definition typeText :: "string \<Rightarrow> ParamBase \<Rightarrow> ParamBase" where
  "typeText t pb =
     (case pb of
        StringParam n p d e \<Rightarrow> StringParam n p d (setText t)
      | PasswordParam n p d e \<Rightarrow> PasswordParam n p d (setText t)
      | FilePathParam n p d e \<Rightarrow> FilePathParam n p d (setText t)
      | DirParam n p d e \<Rightarrow> DirParam n p d (setText t)
      | VariantParam n p d e \<Rightarrow> VariantParam n p d (setText t)
      | StringListParam n p d c \<Rightarrow> StringListParam n p d (c\<lparr>editText := setText t\<rparr>)
      | _ \<Rightarrow> pb)"

definition spinTo :: "nat \<Rightarrow> int \<Rightarrow> ParamBase \<Rightarrow> ParamBase" where
  "spinTo k v pb =
     (case pb of
        IntParam n p d s \<Rightarrow> IntParam n p d (setValue v s)
      | PointParam n p d xs ys \<Rightarrow>
          (if k = 0 then PointParam n p d (setValue v xs) ys
           else PointParam n p d xs (setValue v ys))
      | SizeParam n p d ws hs \<Rightarrow>
          (if k = 0 then SizeParam n p d (setValue v ws) hs
           else SizeParam n p d ws (setValue v hs))
      | RectParam n p d xs ys ws hs \<Rightarrow>
          (if k = 0 then RectParam n p d (setValue v xs) ys ws hs
           else if k = 1 then RectParam n p d xs (setValue v ys) ws hs
           else if k = 2 then RectParam n p d xs ys (setValue v ws) hs
           else RectParam n p d xs ys ws (setValue v hs))
      | _ \<Rightarrow> pb)"

definition dspinTo :: "qt \<Rightarrow> nat \<Rightarrow> qdouble \<Rightarrow> ParamBase \<Rightarrow> ParamBase" where
  "dspinTo q k v pb =
     (case pb of
        DoubleParam n p d s \<Rightarrow> DoubleParam n p d (setValueD q v s)
      | FloatParam n p d s \<Rightarrow> FloatParam n p d (setValueD q v s)
      | RangeParam n p d s1 s2 \<Rightarrow>
          (if k = 0 then RangeParam n p d (setValueD q v s1) s2
           else RangeParam n p d s1 (setValueD q v s2))
      | _ \<Rightarrow> pb)"

definition selectItem :: "int \<Rightarrow> ParamBase \<Rightarrow> ParamBase" where
  "selectItem i pb =
     (case pb of
        ComboParam n os p d c \<Rightarrow>
          (if 0 \<le> i \<and> i < int (length (items c))
           then ComboParam n os p d (setCurrentIndex i c) else pb)
      | StringListParam n p d c \<Rightarrow>
          (if 0 \<le> i \<and> i < int (length (items c))
           then StringListParam n p d (setCurrentIndex i c) else pb)
      | _ \<Rightarrow> pb)"

text \<open>The lambda connected to \<^verbatim>\<open>clicked\<close> in the constructor of \<^verbatim>\<open>ColorParam\<close>.\<close>

definition colorClicked :: "qt \<Rightarrow> qcolor \<Rightarrow> ParamBase \<Rightarrow> ParamBase" where
  "colorClicked q c pb =
     (case pb of
        ColorParam n p d b \<Rightarrow> (if isValid c then ColorParam n c d (colorName q c) else pb)
      | _ \<Rightarrow> pb)"

text \<open>The lambda connected to \<^verbatim>\<open>clicked\<close> in the constructor of \<^verbatim>\<open>FontParam\<close>.\<close>

definition fontClicked :: "qt \<Rightarrow> bool \<Rightarrow> qfont \<Rightarrow> ParamBase \<Rightarrow> ParamBase" where
  "fontClicked q ok font pb =
     (case pb of
        FontParam n p d b f \<Rightarrow> (if ok then FontParam n p d (fontLabel q font) font else pb)
      | _ \<Rightarrow> pb)"

text \<open>\<^verbatim>\<open>onBrowseClicked()\<close> of \<^verbatim>\<open>FilePathParam\<close> and \<^verbatim>\<open>DirParam\<close>.\<close>

definition onBrowseClicked :: "string \<Rightarrow> ParamBase \<Rightarrow> ParamBase" where
  "onBrowseClicked f pb =
     (case pb of
        FilePathParam n p d e \<Rightarrow> (if f \<noteq> [] then FilePathParam n p d (setText f) else pb)
      | DirParam n p d e \<Rightarrow> (if f \<noteq> [] then DirParam n p d (setText f) else pb)
      | _ \<Rightarrow> pb)"

definition pickDate :: "qt \<Rightarrow> qdate \<Rightarrow> ParamBase \<Rightarrow> ParamBase" where
  "pickDate q x pb = (case pb of DateParam n p d e \<Rightarrow> DateParam n p d (setDate q x e) | _ \<Rightarrow> pb)"

definition pickTime :: "qt \<Rightarrow> qtime \<Rightarrow> ParamBase \<Rightarrow> ParamBase" where
  "pickTime q x pb = (case pb of TimeParam n p d e \<Rightarrow> TimeParam n p d (setTime q x e) | _ \<Rightarrow> pb)"

definition pickDateTime :: "qt \<Rightarrow> qdatetime \<Rightarrow> ParamBase \<Rightarrow> ParamBase" where
  "pickDateTime q x pb =
     (case pb of DateTimeParam n p d e \<Rightarrow> DateTimeParam n p d (setDateTime q x e) | _ \<Rightarrow> pb)"

definition toggle :: "bool \<Rightarrow> ParamBase \<Rightarrow> ParamBase" where
  "toggle b pb = (case pb of BoolParam n p d c \<Rightarrow> BoolParam n p d b | _ \<Rightarrow> pb)"

fun edit :: "qt \<Rightarrow> userAction \<Rightarrow> ParamBase \<Rightarrow> ParamBase" where
  "edit q (TypeText t) pb = typeText t pb"
| "edit q (SpinTo k v) pb = spinTo k v pb"
| "edit q (DSpinTo k v) pb = dspinTo q k v pb"
| "edit q (Toggle b) pb = toggle b pb"
| "edit q (Select i) pb = selectItem i pb"
| "edit q (PickColor c) pb = colorClicked q c pb"
| "edit q (PickFont ok font) pb = fontClicked q ok font pb"
| "edit q (PickDate x) pb = pickDate q x pb"
| "edit q (PickTime x) pb = pickTime q x pb"
| "edit q (PickDateTime x) pb = pickDateTime q x pb"
| "edit q (BrowseResult f) pb = onBrowseClicked f pb"
| "edit q PressDef pb = reset q pb"

section \<open>Objects with properties\<close>

text \<open>
  A \<^verbatim>\<open>QObject\<close> as the property adapter sees it: the properties of its meta-object in
  the order of their index, each with its value, and the dynamic properties.
  \<^verbatim>\<open>QObject::property(name)\<close> finds the property declared last under that name, then a
  dynamic property, and is invalid when there is none.
\<close>

datatype metaType =
    TInt | TDouble | TFloat | TBool | TQString | TQColor | TQStringList | TQDate | TQTime
  | TQPoint | TQSize | TQRect | TQVariant | TUser string

record QMetaProperty =
  propName :: string
  isWritable :: bool
  userType :: metaType
  isEnumType :: bool
  enumKeys :: "string list"
  propValue :: QVariant

record QObject =
  metaProperties :: "QMetaProperty list"
  dynamicProperties :: "(string \<times> QVariant) list"

definition property :: "QObject \<Rightarrow> string \<Rightarrow> QVariant" where
  "property obj n =
     (case find (\<lambda>mp. propName mp = n) (rev (metaProperties obj)) of
        Some mp \<Rightarrow> propValue mp
      | None \<Rightarrow> (case map_of (dynamicProperties obj) n of Some v \<Rightarrow> v | None \<Rightarrow> VInvalid))"

text \<open>\<^verbatim>\<open>prop.write(obj, v)\<close> for the property of index \<open>i\<close>: refused when it is not writable.\<close>

definition writeProperty :: "nat \<Rightarrow> QVariant \<Rightarrow> QObject \<Rightarrow> QObject" where
  "writeProperty i v obj =
     (if i < length (metaProperties obj) \<and> isWritable (metaProperties obj ! i)
      then obj\<lparr>metaProperties := (metaProperties obj)[i := (metaProperties obj ! i)\<lparr>propValue := v\<rparr>]\<rparr>
      else obj)"

section \<open>The editor dialog\<close>

text \<open>
  \<^verbatim>\<open>ParamsEditor\<close>: the pages of its tab widget (title and the labels of the rows laid out
  on the page), the help browser, \<^verbatim>\<open>allParams\<close>, \<^verbatim>\<open>helpTabCreated\<close> and the result of the
  dialog. With it are kept what the property adapter connects to it: the lambdas connected
  to \<^verbatim>\<open>accepted\<close> and to \<^verbatim>\<open>currentIndexChanged\<close> of a combo box, and the objects these
  capture. A parameter is named by its place in \<^verbatim>\<open>allParams\<close>: tab and row.
\<close>

datatype outcome = Pending | Accepted | Rejected

type_synonym place = "nat \<times> nat"

text \<open>
  The value buffer a write-back lambda captures: the slot of a registered parameter, or,
  when \<^verbatim>\<open>addParam\<close> did not register the parameter, a buffer nothing writes to.
\<close>

datatype buffer = Registered place | Detached QVariant

record acceptedSlot =
  asObject :: nat
  asProperty :: nat
  asBuffer :: buffer

record indexChangedSlot =
  icPlace :: place
  icObject :: nat
  icProperty :: nat

record ParamsEditor =
  tabs :: "(string \<times> string list) list"
  helpBrowser :: "string option"
  allParams :: "ParamBase list list"
  helpTabCreated :: bool
  dialogResult :: outcome
  objects :: "QObject list"
  acceptedSlots :: "acceptedSlot list"
  indexChangedSlots :: "indexChangedSlot list"

definition newParamsEditor :: ParamsEditor where
  "newParamsEditor =
     \<lparr>tabs = [], helpBrowser = None, allParams = [], helpTabCreated = False,
      dialogResult = Pending, objects = [], acceptedSlots = [], indexChangedSlots = []\<rparr>"

text \<open>\<^verbatim>\<open>addTab(title)\<close>: the index returned is the count of pages of the tab widget.\<close>

definition addTab :: "string \<Rightarrow> ParamsEditor \<Rightarrow> int \<times> ParamsEditor" where
  "addTab title e =
     (int (length (tabs e)),
      e\<lparr>tabs := tabs e @ [(title, [])], allParams := allParams e @ [[]]\<rparr>)"

text \<open>
  \<^verbatim>\<open>addParam(tabIndex, param)\<close>: the guard is on \<^verbatim>\<open>allParams\<close>; the row goes on the page
  \<^verbatim>\<open>tabs->widget(tabIndex)\<close> and the parameter into \<^verbatim>\<open>allParams[tabIndex]\<close>.
\<close>

definition addParam :: "int \<Rightarrow> ParamBase \<Rightarrow> ParamsEditor \<Rightarrow> ParamsEditor" where
  "addParam tabIndex param e =
     (if tabIndex < 0 \<or> tabIndex \<ge> int (length (allParams e)) then e
      else let t = nat tabIndex
           in e\<lparr>tabs := (tabs e)[t := (fst (tabs e ! t), snd (tabs e ! t) @ [name param])],
                allParams := (allParams e)[t := allParams e ! t @ [param]]\<rparr>)"

definition setMainHelp :: "string \<Rightarrow> ParamsEditor \<Rightarrow> ParamsEditor" where
  "setMainHelp htmlText e =
     (let e' = (if \<not> helpTabCreated e
                then e\<lparr>tabs := tabs e @ [(''Help'', [])], helpTabCreated := True\<rparr>
                else e)
      in e'\<lparr>helpBrowser := Some htmlText\<rparr>)"

text \<open>The places of all parameters, in the order of the loops over \<^verbatim>\<open>allParams\<close>.\<close>

definition places :: "ParamsEditor \<Rightarrow> place list" where
  "places e =
     concat (map (\<lambda>t. map (\<lambda>i. (t, i)) [0 ..< length (allParams e ! t)])
                 [0 ..< length (allParams e)])"

definition paramAt :: "ParamsEditor \<Rightarrow> place \<Rightarrow> ParamBase" where
  "paramAt e pl = allParams e ! fst pl ! snd pl"

definition setParam :: "place \<Rightarrow> ParamBase \<Rightarrow> ParamsEditor \<Rightarrow> ParamsEditor" where
  "setParam pl p e =
     e\<lparr>allParams := (allParams e)[fst pl := (allParams e ! fst pl)[snd pl := p]]\<rparr>"

text \<open>
  The lambda \<^verbatim>\<open>createEnumParam\<close> connects to \<^verbatim>\<open>currentIndexChanged\<close> of the combo box:
  \<^verbatim>\<open>*valuePtr = index; prop.write(obj, *valuePtr);\<close>. The signal is emitted when an
  operation on the parameter has changed the current index of its combo box.
\<close>

definition comboIndex :: "ParamBase \<Rightarrow> int option" where
  "comboIndex pb = (case pb of ComboParam n os p d c \<Rightarrow> Some (currentIndex c) | _ \<Rightarrow> None)"

definition writeIndex :: "int \<Rightarrow> ParamBase \<Rightarrow> ParamBase" where
  "writeIndex i pb = (case pb of ComboParam n os p d c \<Rightarrow> ComboParam n os i d c | _ \<Rightarrow> pb)"

definition runIndexChanged :: "int \<Rightarrow> ParamsEditor \<Rightarrow> indexChangedSlot \<Rightarrow> ParamsEditor" where
  "runIndexChanged i e c =
     (let e' = setParam (icPlace c) (writeIndex i (paramAt e (icPlace c))) e
      in e'\<lparr>objects := (objects e')[icObject c :=
               writeProperty (icProperty c) (VInt i) (objects e' ! icObject c)]\<rparr>)"

text \<open>An operation \<open>f\<close> on the parameter at a place, with the signal it may emit.\<close>

definition updateParam :: "place \<Rightarrow> (ParamBase \<Rightarrow> ParamBase) \<Rightarrow> ParamsEditor \<Rightarrow> ParamsEditor" where
  "updateParam pl f e =
     (let old = paramAt e pl; new = f old; e' = setParam pl new e
      in case comboIndex new of
           None \<Rightarrow> e'
         | Some i \<Rightarrow>
             if comboIndex old = Some i then e'
             else foldl (runIndexChanged i) e' (filter (\<lambda>c. icPlace c = pl) (indexChangedSlots e')))"

text \<open>A user action on the control of the parameter at a place of the shown dialog.\<close>

definition userEdit :: "qt \<Rightarrow> place \<Rightarrow> userAction \<Rightarrow> ParamsEditor \<Rightarrow> ParamsEditor" where
  "userEdit q pl a e = (if pl \<in> set (places e) then updateParam pl (edit q a) e else e)"

text \<open>
  The lambda \<^verbatim>\<open>setupParamConnections\<close> connects to \<^verbatim>\<open>accepted\<close>:
  \<^verbatim>\<open>prop.write(obj, *valuePtr)\<close>.
\<close>

definition bufferValue :: "ParamsEditor \<Rightarrow> buffer \<Rightarrow> QVariant" where
  "bufferValue e b = (case b of Registered pl \<Rightarrow> slot (paramAt e pl) | Detached v \<Rightarrow> v)"

definition runAccepted :: "ParamsEditor \<Rightarrow> acceptedSlot \<Rightarrow> ParamsEditor" where
  "runAccepted e c =
     e\<lparr>objects := (objects e)[asObject c :=
            writeProperty (asProperty c) (bufferValue e (asBuffer c)) (objects e ! asObject c)]\<rparr>"

text \<open>\<^verbatim>\<open>onApplyClicked()\<close>: every \<^verbatim>\<open>apply()\<close>, then \<^verbatim>\<open>accept()\<close>, which emits \<^verbatim>\<open>accepted\<close>.\<close>

definition onApplyClicked :: "qt \<Rightarrow> ParamsEditor \<Rightarrow> ParamsEditor" where
  "onApplyClicked q e =
     (let e1 = foldl (\<lambda>e' pl. setParam pl (apply_param q (paramAt e' pl)) e') e (places e);
          e2 = e1\<lparr>dialogResult := Accepted\<rparr>
      in foldl runAccepted e2 (acceptedSlots e2))"

text \<open>\<^verbatim>\<open>onCancelClicked()\<close>: \<^verbatim>\<open>reject()\<close>.\<close>

definition onCancelClicked :: "ParamsEditor \<Rightarrow> ParamsEditor" where
  "onCancelClicked e = e\<lparr>dialogResult := Rejected\<rparr>"

section \<open>Loading and saving the editor\<close>

text \<open>
  The files \<^verbatim>\<open>QFile::open\<close> can reach: the document of each file as a reader reports it,
  the paths that cannot be opened for reading and those that cannot be opened for writing.
\<close>

record fileSystem =
  files :: "(string \<times> token list) list"
  unreadable :: "string list"
  unwritable :: "string list"

definition openReadOnly :: "fileSystem \<Rightarrow> string \<Rightarrow> token list option" where
  "openReadOnly fs f = (if f \<in> set (unreadable fs) then None else map_of (files fs) f)"

definition openWriteOnly :: "fileSystem \<Rightarrow> string \<Rightarrow> bool" where
  "openWriteOnly fs f = (f \<notin> set (unwritable fs))"

definition writeFile :: "string \<Rightarrow> token list \<Rightarrow> fileSystem \<Rightarrow> fileSystem" where
  "writeFile f ts fs = fs\<lparr>files := (f, ts) # files fs\<rparr>"

text \<open>
  The two inner loops of \<^verbatim>\<open>loadFromFile\<close>, over every parameter of every tab: the name of
  each is compared with the name of the token the reader stands on when its turn comes,
  and \<^verbatim>\<open>load\<close> is given the one reader of the file.
\<close>

fun loadParams :: "qt \<Rightarrow> place list \<Rightarrow> reader \<times> ParamsEditor \<Rightarrow> reader \<times> ParamsEditor" where
  "loadParams q [] re = re"
| "loadParams q (pl # pls) re =
     loadParams q pls
       (if name (paramAt (snd re) pl) = readerName (fst re)
        then (snd (load q (paramAt (snd re) pl) (fst re)),
              updateParam pl (\<lambda>p. fst (load q p (fst re))) (snd re))
        else re)"

definition loadStep :: "qt \<Rightarrow> reader \<times> ParamsEditor \<Rightarrow> reader \<times> ParamsEditor" where
  "loadStep q re =
     (if isStartElement (fst re) then loadParams q (places (snd re)) re else re)"

definition unread :: "reader \<Rightarrow> nat" where
  "unread r = length (pending r) + (if atEnd r then 0 else 1)"

lemma unread_readNext: "unread (readNext r) \<le> unread r"
  by (auto simp: unread_def readNext_def atEnd_def split: list.splits)

lemma unread_readNext_less: "\<not> atEnd r \<Longrightarrow> unread (readNext r) < unread r"
  by (auto simp: unread_def readNext_def atEnd_def split: list.splits)

lemma unread_loadParams: "unread (fst (loadParams q pls re)) \<le> unread (fst re)"
proof (induction pls arbitrary: re)
  case Nil
  show ?case by simp
next
  case (Cons pl pls)
  show ?case
  proof (cases "name (paramAt (snd re) pl) = readerName (fst re)")
    case True
    let ?re' = "(readNext (fst re),
                 updateParam pl (\<lambda>p. fst (load q p (fst re))) (snd re))"
    have "loadParams q (pl # pls) re = loadParams q pls ?re'"
      using True by (simp add: load_def)
    moreover have "unread (fst (loadParams q pls ?re')) \<le> unread (fst ?re')"
      by (rule Cons.IH)
    ultimately show ?thesis
      using unread_readNext [of "fst re"] by simp
  next
    case False
    then show ?thesis using Cons.IH [of re] by simp
  qed
qed

lemma unread_loadStep: "unread (fst (loadStep q re)) \<le> unread (fst re)"
  by (simp add: loadStep_def unread_loadParams)

text \<open>The \<^verbatim>\<open>while (!reader.atEnd())\<close> loop of \<^verbatim>\<open>loadFromFile\<close>.\<close>

function loadLoop :: "qt \<Rightarrow> reader \<times> ParamsEditor \<Rightarrow> ParamsEditor" where
  "loadLoop q re =
     (if atEnd (fst re) then snd re
      else loadLoop q (loadStep q (readNext (fst re), snd re)))"
  by pat_completeness auto
termination
proof (relation "measure (\<lambda>(q, re). unread (fst re))")
  show "wf (measure (\<lambda>(q, re). unread (fst re)))" by simp
next
  fix q :: qt and re :: "reader \<times> ParamsEditor"
  assume "\<not> atEnd (fst re)"
  then have "unread (readNext (fst re)) < unread (fst re)"
    by (rule unread_readNext_less)
  moreover have "unread (fst (loadStep q (readNext (fst re), snd re))) \<le> unread (readNext (fst re))"
    using unread_loadStep [of q "(readNext (fst re), snd re)"] by simp
  ultimately show "((q, loadStep q (readNext (fst re), snd re)), (q, re))
                   \<in> measure (\<lambda>(q, re). unread (fst re))"
    by simp
qed

definition loadFromFile :: "qt \<Rightarrow> fileSystem \<Rightarrow> string \<Rightarrow> ParamsEditor \<Rightarrow> ParamsEditor" where
  "loadFromFile q fs filename e =
     (case openReadOnly fs filename of
        None \<Rightarrow> e
      | Some doc \<Rightarrow> loadLoop q (newReader doc, e))"

definition saveToFile :: "qt \<Rightarrow> ParamsEditor \<Rightarrow> string \<Rightarrow> fileSystem \<Rightarrow> fileSystem" where
  "saveToFile q e filename fs =
     (if \<not> openWriteOnly fs filename then fs
      else let w0 = writeStartElement ''Params'' (writeStartDocument newWriter);
               w1 = foldl (\<lambda>w pl. save q (paramAt e pl) w) w0 (places e)
           in writeFile filename (out (writeEndDocument (writeEndElement w1))) fs)"

section \<open>Tabs and their indices\<close>

text \<open>
  While no help tab exists, the tab widget and \<^verbatim>\<open>allParams\<close> grow together: \<^verbatim>\<open>addTab\<close>
  returns the index of the group it appended, and \<^verbatim>\<open>addParam\<close> with that index
  registers the parameter there.
\<close>

lemma addTab_aligned:
  assumes "length (tabs e) = length (allParams e)"
  shows "fst (addTab title e) = int (length (allParams e))"
    and "length (tabs (snd (addTab title e))) = length (allParams (snd (addTab title e)))"
    and "allParams (addParam (fst (addTab title e)) p (snd (addTab title e)))
         = allParams e @ [[p]]"
  using assms by (simp_all add: addTab_def addParam_def Let_def)

text \<open>
  C8. Every \<^verbatim>\<open>addTab\<close> is to return the index of the group it appends, counting from
  zero, also with \<^verbatim>\<open>setMainHelp\<close> calls in between, and the index is to be good for
  \<^verbatim>\<open>addParam\<close>. The code takes the index from the tab widget, which also holds the help
  page, and guards \<^verbatim>\<open>addParam\<close> by \<^verbatim>\<open>allParams\<close>, which does not: on a new editor,
  after \<^verbatim>\<open>setMainHelp\<close>, the first \<^verbatim>\<open>addTab\<close> returns 1, not 0, and \<^verbatim>\<open>addParam\<close> with
  the returned index registers nothing.
\<close>

theorem addTab_after_setMainHelp:
  "fst (addTab ''A'' (setMainHelp ''help'' newParamsEditor)) = 1 \<and>
   allParams (snd (addTab ''A'' (setMainHelp ''help'' newParamsEditor))) = [[]] \<and>
   addParam (fst (addTab ''A'' (setMainHelp ''help'' newParamsEditor))) p
            (snd (addTab ''A'' (setMainHelp ''help'' newParamsEditor)))
     = snd (addTab ''A'' (setMainHelp ''help'' newParamsEditor))"
  by (simp add: addTab_def setMainHelp_def newParamsEditor_def addParam_def Let_def)

section \<open>Files that cannot be opened\<close>

text \<open>
  C9. When the file cannot be opened, \<^verbatim>\<open>loadFromFile\<close> leaves the editor, with every
  control, as it was, and \<^verbatim>\<open>saveToFile\<close> writes nothing. Both are total functions that
  return the state: there is no error for a caller to meet.
\<close>

theorem unopened_file_no_work:
  "(openReadOnly fs path = None \<longrightarrow> loadFromFile q fs path e = e) \<and>
   (\<not> openWriteOnly fs path \<longrightarrow> saveToFile q e path fs = fs)"
  by (simp add: loadFromFile_def saveToFile_def)

theorem unopened_file_no_work_witness:
  "\<forall>q. openReadOnly \<lparr>files = [], unreadable = [], unwritable = [''/ro/p.xml'']\<rparr> ''/ro/p.xml'' = None
     \<and> \<not> openWriteOnly \<lparr>files = [], unreadable = [], unwritable = [''/ro/p.xml'']\<rparr> ''/ro/p.xml''
     \<and> loadFromFile q \<lparr>files = [], unreadable = [], unwritable = [''/ro/p.xml'']\<rparr> ''/ro/p.xml''
          (addParam 0 (newIntParam ''Answer'' 42 0 100) (snd (addTab ''Simple'' newParamsEditor)))
        = addParam 0 (newIntParam ''Answer'' 42 0 100) (snd (addTab ''Simple'' newParamsEditor))
     \<and> saveToFile q (addParam 0 (newIntParam ''Answer'' 42 0 100) (snd (addTab ''Simple'' newParamsEditor)))
          ''/ro/p.xml'' \<lparr>files = [], unreadable = [], unwritable = [''/ro/p.xml'']\<rparr>
        = \<lparr>files = [], unreadable = [], unwritable = [''/ro/p.xml'']\<rparr>"
proof -
  let ?fs = "\<lparr>files = [], unreadable = [], unwritable = [''/ro/p.xml'']\<rparr>"
  have r: "openReadOnly ?fs ''/ro/p.xml'' = None"
    by (simp add: openReadOnly_def)
  have w: "\<not> openWriteOnly ?fs ''/ro/p.xml''"
    by (simp add: openWriteOnly_def)
  show ?thesis
    using r w unopened_file_no_work [of ?fs "''/ro/p.xml''"] by blast
qed

section \<open>A choice index outside the option list\<close>

text \<open>
  C10. \<^verbatim>\<open>ComboParam::load\<close> hands the number of the \<^verbatim>\<open>index\<close> attribute to the combo box
  unchecked. When the number names no option, the box is left with no selection (current
  index -1), and the next \<^verbatim>\<open>apply()\<close> writes -1 into the slot.
\<close>

theorem combo_load_out_of_range:
  assumes "items c = os"
    and "tok r = StartElement tag a"
    and "hasAttribute a ''index''"
    and "toInt (attrValue a ''index'') < 0 \<or> int (length os) \<le> toInt (attrValue a ''index'')"
  shows "\<exists>c'. fst (load q (ComboParam n os p d c) r) = ComboParam n os p d c'
              \<and> currentIndex c' = - 1
              \<and> slot (apply_param q (fst (load q (ComboParam n os p d c) r))) = VInt (- 1)"
  using assms by (auto simp: load_def readerAttributes_def setCurrentIndex_def Let_def)

theorem combo_load_out_of_range_witness:
  "\<forall>q. slot (apply_param q (fst (load q
          (newComboParam ''Options'' [''Option 1'', ''Option 2'', ''Option 3''] 1 0)
          \<lparr>tok = StartElement ''Options'' [(''index'', ''7'')], pending = []\<rparr>))) = VInt (- 1)"
proof
  fix q
  let ?os = "[''Option 1'', ''Option 2'', ''Option 3'']"
  let ?c = "setCurrentIndex 1 (addItems ?os newComboBox)"
  let ?r = "\<lparr>tok = StartElement ''Options'' [(''index'', ''7'')], pending = []\<rparr>"
  have i: "toInt ''7'' = 7" by code_simp
  have 1: "items ?c = ?os"
    by (simp add: setCurrentIndex_def addItems_def newComboBox_def Let_def)
  have 2: "tok ?r = StartElement ''Options'' [(''index'', ''7'')]" by simp
  have 3: "hasAttribute [(''index'', ''7'')] ''index''" by (simp add: hasAttribute_def)
  have 4: "toInt (attrValue [(''index'', ''7'')] ''index'') < 0
           \<or> int (length ?os) \<le> toInt (attrValue [(''index'', ''7'')] ''index'')"
    by (simp add: attrValue_def i)
  show "slot (apply_param q (fst (load q (newComboParam ''Options'' ?os 1 0) ?r))) = VInt (- 1)"
    using combo_load_out_of_range [OF 1 2 3 4, of q "''Options''" 1 0]
    by (auto simp: newComboParam_def)
qed

section \<open>Loading a malformed element\<close>

text \<open>An element without attributes leaves the control of every class as it was.\<close>

lemma load_without_attributes: "loadAttributes q [] pb = pb"
  by (cases pb) (simp_all add: hasAttribute_def)

text \<open>\<^verbatim>\<open>DateParam::load\<close> checks what it parsed: a text that is no date changes nothing.\<close>

lemma date_load_invalid:
  "\<not> dateIsValid q (dateFromISO q (attrValue a ''value''))
   \<Longrightarrow> loadAttributes q a (DateParam n p d e) = DateParam n p d e"
  by simp

text \<open>
  C6. A missing or malformed attribute set is to leave the control untouched.
  \<^verbatim>\<open>IntParam::load\<close> does not check the conversion, unlike \<^verbatim>\<open>DateParam::load\<close>: the text
  \<open>abc\<close> converts to 0, and the spin box of a parameter that held 42 is set to 0.
\<close>

theorem int_load_malformed:
  "fst (load q (newIntParam ''Answer'' 42 0 100)
          \<lparr>tok = StartElement ''Answer'' [(''value'', ''abc'')], pending = []\<rparr>)
   = IntParam ''Answer'' 42 42 \<lparr>minimum = 0, maximum = 100, spinValue = 0\<rparr>
   \<and> newIntParam ''Answer'' 42 0 100
   = IntParam ''Answer'' 42 42 \<lparr>minimum = 0, maximum = 100, spinValue = 42\<rparr>"
proof -
  have "toInt ''abc'' = 0" by code_simp
  then show ?thesis
    by (simp add: load_def newIntParam_def readerAttributes_def hasAttribute_def attrValue_def
        setValue_def setRange_def newSpinBox_def bound_def Let_def)
qed

section \<open>Parameters that share a name\<close>

text \<open>An element whose tag is the name of no parameter changes nothing.\<close>

lemma loadParams_no_match:
  "\<forall>pl \<in> set pls. name (paramAt e pl) \<noteq> readerName r \<Longrightarrow> loadParams q pls (r, e) = (r, e)"
  by (induction pls) simp_all

text \<open>
  C4. Two parameters of one name are both to receive the data of an element of that name.
  Each \<^verbatim>\<open>load\<close> ends with \<^verbatim>\<open>readNext()\<close> on the reader the loop shares: when the turn of
  the second parameter comes the reader stands on the end of the element, whose name
  still matches and which has no attributes. The first spin box takes the 7 of the file,
  the second keeps its 2.
\<close>

theorem load_shared_name:
  "loadFromFile q
     \<lparr>files = [(''p.xml'',
         [StartDocument, StartElement ''Params'' [], indent 1,
          StartElement ''X'' [(''value'', ''7'')], EndElement ''X'', indent 0,
          EndElement ''Params'', EndDocument])],
      unreadable = [], unwritable = []\<rparr>
     ''p.xml''
     (addParam 0 (newIntParam ''X'' 2 0 100)
        (addParam 0 (newIntParam ''X'' 1 0 100) (snd (addTab ''T'' newParamsEditor))))
   = addParam 0 (IntParam ''X'' 2 2 \<lparr>minimum = 0, maximum = 100, spinValue = 2\<rparr>)
        (addParam 0 (IntParam ''X'' 1 1 \<lparr>minimum = 0, maximum = 100, spinValue = 7\<rparr>)
           (snd (addTab ''T'' newParamsEditor)))"
  by code_simp

section \<open>What apply copies\<close>

text \<open>
  The value the control of a parameter shows at a moment, as the getter of the control
  gives it and in the type of the slot: \<^verbatim>\<open>spin->value()\<close>, \<^verbatim>\<open>edit->text()\<close>,
  \<^verbatim>\<open>combo->currentIndex()\<close>, \<^verbatim>\<open>checkBox->isChecked()\<close>, the colour of the button, the
  font last picked, the date or time of the edit, and for the editable box of a
  \<^verbatim>\<open>StringListParam\<close> the comma-separated fields of the text it shows.
\<close>

fun controlValue :: "qt \<Rightarrow> ParamBase \<Rightarrow> QVariant" where
  "controlValue q (DoubleParam n p d s) = VDouble (dvalue s)"
| "controlValue q (IntParam n p d s) = VInt (spinValue s)"
| "controlValue q (StringParam n p d e) = VString e"
| "controlValue q (PasswordParam n p d e) = VString e"
| "controlValue q (ComboParam n os p d c) = VInt (currentIndex c)"
| "controlValue q (ColorParam n p d b) = VColor (colorFromString q b)"
| "controlValue q (FilePathParam n p d e) = VString e"
| "controlValue q (DirParam n p d e) = VString e"
| "controlValue q (BoolParam n p d c) = VBool c"
| "controlValue q (FontParam n p d b f) = VFont f"
| "controlValue q (DateTimeParam n p d e) = VDateTime e"
| "controlValue q (RangeParam n p d s1 s2) = VRange (dvalue s1) (dvalue s2)"
| "controlValue q (StringListParam n p d c) = VStringList (splitSkipEmpty (currentText c))"
| "controlValue q (DateParam n p d e) = VDate e"
| "controlValue q (TimeParam n p d e) = VTime e"
| "controlValue q (PointParam n p d xs ys) = VPoint (spinValue xs) (spinValue ys)"
| "controlValue q (SizeParam n p d ws hs) = VSize (spinValue ws) (spinValue hs)"
| "controlValue q (RectParam n p d xs ys ws hs) =
     VRect (spinValue xs) (spinValue ys) (spinValue ws) (spinValue hs)"
| "controlValue q (VariantParam n p d e) = VString e"
| "controlValue q (FloatParam n p d s) = VFloat (doubleToFloat q (dvalue s))"

text \<open>
  C2. For every parameter class and in every state of the parameter, so after any
  selections, \<^verbatim>\<open>reset()\<close> and \<^verbatim>\<open>load()\<close> calls, \<^verbatim>\<open>apply()\<close> makes the slot the value
  the control shows at that moment, and leaves the control showing it.
\<close>

theorem apply_copies_control_value:
  "slot (apply_param q pb) = controlValue q pb
   \<and> controlValue q (apply_param q pb) = controlValue q pb
   \<and> name (apply_param q pb) = name pb"
  by (cases pb) simp_all

text \<open>What the control shows follows what the user does to it.\<close>

lemma control_shows_edit:
  shows "controlValue q (edit q (TypeText t) (StringParam n p sd e)) = VString (take 32767 t)"
    and "minimum s \<le> v \<Longrightarrow> v \<le> maximum s
         \<Longrightarrow> controlValue q (edit q (SpinTo k v) (IntParam n ip idf s)) = VInt v"
    and "controlValue q (edit q (Toggle b) (BoolParam n bp bd bc)) = VBool b"
    and "0 \<le> i \<Longrightarrow> i < int (length (items c))
         \<Longrightarrow> controlValue q (edit q (Select i) (ComboParam n os cp cd c)) = VInt i"
    and "controlValue q (edit q (PickFont True f') (FontParam n fp fd fb f)) = VFont f'"
    and "isValid c' \<Longrightarrow> controlValue q (edit q (PickColor c') (ColorParam n cop cod cb))
         = VColor (colorFromString q (colorName q c'))"
    and "editable lc \<Longrightarrow> controlValue q (edit q (TypeText t) (StringListParam n lp ld lc))
         = VStringList (splitSkipEmpty (take 32767 t))"
  by (simp_all add: typeText_def spinTo_def toggle_def selectItem_def fontClicked_def
      colorClicked_def setText_def setValue_def setCurrentIndex_def currentText_def bound_def
      Let_def)

text \<open>
  The list a \<^verbatim>\<open>StringListParam\<close> is made on becomes the items of its box, which shows
  the first of them: made on Item1, Item2, Item3, the parameter writes the list of Item1
  alone when it is applied.
\<close>

lemma string_list_apply_first_item:
  "newStringListParam ''stringListValue'' [''Item1'', ''Item2'', ''Item3''] [''Item1'', ''Item2'', ''Item3'']
   = StringListParam ''stringListValue'' [''Item1'', ''Item2'', ''Item3''] [''Item1'', ''Item2'', ''Item3'']
       \<lparr>items = [''Item1'', ''Item2'', ''Item3''], currentIndex = 0, editable = True,
        editText = ''Item1''\<rparr>
   \<and> slot (apply_param q
        (newStringListParam ''stringListValue'' [''Item1'', ''Item2'', ''Item3'']
           [''Item1'', ''Item2'', ''Item3'']))
   = VStringList [''Item1'']"
proof -
  have "splitSkipEmpty ''Item1'' = [''Item1'']" by code_simp
  then show ?thesis
    by (simp add: newStringListParam_def addItems_def newComboBox_def setCurrentIndex_def
        itemText_def currentText_def Let_def)
qed

section \<open>The round trip of the string list parameter\<close>

text \<open>
  C3. Loading what was saved is to restore the control. \<^verbatim>\<open>StringListParam::save\<close> writes
  the current text and \<^verbatim>\<open>load\<close> splits it at the commas into items, of which the first
  becomes the text: a box showing \<open>a,b\<close> shows \<open>a\<close> after the round trip.
\<close>

theorem string_list_round_trip:
  "typeText ''a,b'' (newStringListParam ''L'' [] [])
   = StringListParam ''L'' [] []
       \<lparr>items = [], currentIndex = - 1, editable = True, editText = ''a,b''\<rparr>
   \<and> out (save q (typeText ''a,b'' (newStringListParam ''L'' [] [])) newWriter)
   = [StartElement ''L'' [(''value'', ''a,b'')], EndElement ''L'']
   \<and> fst (load q (typeText ''a,b'' (newStringListParam ''L'' [] []))
        (readNext (newReader
           (out (save q (typeText ''a,b'' (newStringListParam ''L'' [] [])) newWriter)))))
   = StringListParam ''L'' [] []
       \<lparr>items = [''a'', ''b''], currentIndex = 0, editable = True, editText = ''a''\<rparr>"
proof -
  have s: "splitSkipEmpty ''a,b'' = [''a'', ''b'']" by code_simp
  have t: "setText ''a,b'' = ''a,b''" by (simp add: setText_def)
  have p: "typeText ''a,b'' (newStringListParam ''L'' [] [])
           = StringListParam ''L'' [] []
               \<lparr>items = [], currentIndex = - 1, editable = True, editText = ''a,b''\<rparr>"
    by (simp add: typeText_def newStringListParam_def addItems_def newComboBox_def t)
  have w: "out (save q (StringListParam ''L'' [] []
               \<lparr>items = [], currentIndex = - 1, editable = True, editText = ''a,b''\<rparr>) newWriter)
           = [StartElement ''L'' [(''value'', ''a,b'')], EndElement ''L'']"
    by (simp add: writeElement_def writeStartElement_def writeAttribute_def writeEndElement_def
        newWriter_def currentText_def)
  show ?thesis
    unfolding p w
    by (simp add: load_def newReader_def readNext_def readerAttributes_def hasAttribute_def
        attrValue_def s clear_def addItems_def setCurrentIndex_def itemText_def Let_def)
qed

section \<open>Cancelling the dialog\<close>

text \<open>
  No user action writes the slot of a parameter, except the click on the button of a
  \<^verbatim>\<open>ColorParam\<close>.
\<close>

lemma edit_keeps_slot:
  assumes "\<And>n p d b. pb \<noteq> ColorParam n p d b"
  shows "slot (edit q a pb) = slot pb"
proof (cases a)
  case PressDef
  then show ?thesis by (cases pb) (simp_all split: prod.splits)
qed (use assms in \<open>cases pb; simp add: typeText_def spinTo_def dspinTo_def toggle_def
      selectItem_def colorClicked_def fontClicked_def pickDate_def pickTime_def
      pickDateTime_def onBrowseClicked_def\<close>)+

text \<open>
  C1. After a cancel every slot is to hold what it held before the dialog was shown. The
  lambda the constructor of \<^verbatim>\<open>ColorParam\<close> connects to the button writes the picked colour
  through \<^verbatim>\<open>ptr\<close> at once, where the lambda of \<^verbatim>\<open>FontParam\<close> only keeps it in the
  control: the slot was blue, the user picks green and cancels, the slot is green.
\<close>

theorem cancel_keeps_picked_color:
  "slot (paramAt (addParam 0 (newColorParam q ''Color'' (Rgba 0 0 255 255) (Rgba 255 0 0 255))
                    (snd (addTab ''Simple'' newParamsEditor))) (0, 0))
   = VColor (Rgba 0 0 255 255)
   \<and> slot (paramAt (onCancelClicked (userEdit q (0, 0) (PickColor (Rgba 0 255 0 255))
                    (addParam 0 (newColorParam q ''Color'' (Rgba 0 0 255 255) (Rgba 255 0 0 255))
                       (snd (addTab ''Simple'' newParamsEditor))))) (0, 0))
   = VColor (Rgba 0 255 0 255)
   \<and> dialogResult (onCancelClicked (userEdit q (0, 0) (PickColor (Rgba 0 255 0 255))
                    (addParam 0 (newColorParam q ''Color'' (Rgba 0 0 255 255) (Rgba 255 0 0 255))
                       (snd (addTab ''Simple'' newParamsEditor)))))
   = Rejected"
  by (simp add: addTab_def addParam_def newParamsEditor_def newColorParam_def paramAt_def
      onCancelClicked_def userEdit_def places_def updateParam_def setParam_def
      colorClicked_def isValid_def comboIndex_def Let_def)

section \<open>Reset followed by apply\<close>

text \<open>
  A record of Qt functions to evaluate examples with: doubles compare by their bit
  patterns and are not rounded, nothing parses, every date is valid and in range.
\<close>

definition qtPlain :: qt where
  "qtPlain =
     \<lparr>dless = (\<lambda>a b. case a of Double x \<Rightarrow> (case b of Double y \<Rightarrow> x < y)),
      dround = (\<lambda>d. d),
      toDouble = (\<lambda>s. dzero),
      toFloat = (\<lambda>s. Float 0),
      numberD = (\<lambda>d. ''0''),
      numberF6 = (\<lambda>d. ''0.000000''),
      floatToDouble = (\<lambda>f. case f of Float w \<Rightarrow> Double (ucast w)),
      doubleToFloat = (\<lambda>d. case d of Double w \<Rightarrow> Float (ucast w)),
      doubleToInt = (\<lambda>d. 0),
      colorName = (\<lambda>c. ''#000000''),
      colorFromString = (\<lambda>s. InvalidColor),
      fontToString = (\<lambda>f. case f of QFont s \<Rightarrow> s),
      fontFromString = (\<lambda>f s. QFont s),
      fontLabel = (\<lambda>f. case f of QFont s \<Rightarrow> s),
      dateIsValid = (\<lambda>d. True),
      dateToISO = (\<lambda>d. []),
      dateFromISO = (\<lambda>s. QDate 0),
      dateInEdit = (\<lambda>d. d),
      dateEditInit = (\<lambda>d. d),
      timeIsValid = (\<lambda>t. True),
      timeToISO = (\<lambda>t. []),
      timeFromISO = (\<lambda>s. QTime 0),
      timeEditInit = (\<lambda>t. t),
      dateTimeIsValid = (\<lambda>d. True),
      dateTimeToISO = (\<lambda>d. []),
      dateTimeFromISO = (\<lambda>s. QDateTime (QDate 0) (QTime 0)),
      dateTimeInEdit = (\<lambda>d. d),
      dateTimeEditInit = (\<lambda>d. d),
      variantToString = (\<lambda>v. case v of VString s \<Rightarrow> s | _ \<Rightarrow> []),
      variantToDouble = (\<lambda>v. case v of VDouble d \<Rightarrow> d | _ \<Rightarrow> dzero)\<rparr>"

text \<open>
  The default of a parameter as its control holds it once set to it: a number bounded to
  the range of the spin box, an index that names no item of the combo box as -1, a text
  cut to the length of a line edit, a colour as the colour its name stands for, a valid
  date bounded to the range of the edit. It is made of \<^verbatim>\<open>defVal\<close> and of what the
  constructor fixed in the control, and of nothing the user can change.
\<close>

fun defaultInControl :: "qt \<Rightarrow> ParamBase \<Rightarrow> QVariant" where
  "defaultInControl q (DoubleParam n p d s) =
     VDouble (dbound q (dminimum s) (dround q d) (dmaximum s))"
| "defaultInControl q (IntParam n p d s) = VInt (bound (minimum s) d (maximum s))"
| "defaultInControl q (StringParam n p d e) = VString (take 32767 d)"
| "defaultInControl q (PasswordParam n p d e) = VString (take 32767 d)"
| "defaultInControl q (ComboParam n os p d c) =
     VInt (if 0 \<le> d \<and> d < int (length (items c)) then d else - 1)"
| "defaultInControl q (ColorParam n p d b) = VColor (colorFromString q (colorName q d))"
| "defaultInControl q (FilePathParam n p d e) = VString (take 32767 d)"
| "defaultInControl q (DirParam n p d e) = VString (take 32767 d)"
| "defaultInControl q (BoolParam n p d c) = VBool d"
| "defaultInControl q (FontParam n p d b f) = VFont d"
| "defaultInControl q (DateTimeParam n p d e) = VDateTime (dateTimeInEdit q d)"
| "defaultInControl q (RangeParam n p d s1 s2) =
     VRange (dbound q (dminimum s1) (dround q (fst d)) (dmaximum s1))
            (dbound q (dminimum s2) (dround q (snd d)) (dmaximum s2))"
| "defaultInControl q (StringListParam n p d c) = VStringList d"
| "defaultInControl q (DateParam n p d e) = VDate (dateInEdit q d)"
| "defaultInControl q (TimeParam n p d e) = VTime d"
| "defaultInControl q (PointParam n p d xs ys) =
     VPoint (bound (minimum xs) (fst d) (maximum xs)) (bound (minimum ys) (snd d) (maximum ys))"
| "defaultInControl q (SizeParam n p d ws hs) =
     VSize (bound (minimum ws) (fst d) (maximum ws)) (bound (minimum hs) (snd d) (maximum hs))"
| "defaultInControl q (RectParam n p d xs ys ws hs) =
     (case d of (x, y, w, h) \<Rightarrow>
        VRect (bound (minimum xs) x (maximum xs)) (bound (minimum ys) y (maximum ys))
              (bound (minimum ws) w (maximum ws)) (bound (minimum hs) h (maximum hs)))"
| "defaultInControl q (VariantParam n p d e) = VString (take 32767 (variantToString q d))"
| "defaultInControl q (FloatParam n p d s) =
     VFloat (doubleToFloat q (dbound q (dminimum s) (dround q (floatToDouble q d)) (dmaximum s)))"

text \<open>
  The parameters whose control takes the default when it is reset: all but a date or time
  parameter with an invalid default, which its edit ignores, and the string list
  parameter.
\<close>

definition takesDefault :: "qt \<Rightarrow> ParamBase \<Rightarrow> bool" where
  "takesDefault q pb =
     (case pb of
        DateTimeParam n p d e \<Rightarrow> dateTimeIsValid q d
      | DateParam n p d e \<Rightarrow> dateIsValid q d
      | TimeParam n p d e \<Rightarrow> timeIsValid q d
      | StringListParam n p d c \<Rightarrow> False
      | _ \<Rightarrow> True)"

lemma reset_apply_slot:
  "takesDefault q pb \<Longrightarrow> slot (apply_param q (reset q pb)) = defaultInControl q pb"
  by (cases pb)
     (auto simp: takesDefault_def setValue_def setValueD_def setText_def setCurrentIndex_def
        setDate_def setTime_def setDateTime_def Let_def split: prod.splits)

lemma reset_keeps_default:
  "defaultInControl q (reset q pb) = defaultInControl q pb
   \<and> takesDefault q (reset q pb) = takesDefault q pb"
  by (cases pb)
     (auto simp: takesDefault_def setValue_def setValueD_def setCurrentIndex_def Let_def
        split: prod.splits)

lemma edit_keeps_default:
  "defaultInControl q (edit q a pb) = defaultInControl q pb
   \<and> takesDefault q (edit q a pb) = takesDefault q pb"
proof (cases a)
  case PressDef
  then show ?thesis using reset_keeps_default [of q pb] by simp
qed (cases pb; simp add: takesDefault_def typeText_def spinTo_def dspinTo_def toggle_def
      selectItem_def colorClicked_def fontClicked_def pickDate_def pickTime_def
      pickDateTime_def onBrowseClicked_def setValue_def setValueD_def setCurrentIndex_def
      Let_def)+

lemma edits_keep_default:
  "defaultInControl q (foldl (\<lambda>p a. edit q a p) pb as) = defaultInControl q pb
   \<and> takesDefault q (foldl (\<lambda>p a. edit q a p) pb as) = takesDefault q pb"
proof (induction as arbitrary: pb)
  case Nil
  show ?case by simp
next
  case (Cons a as)
  show ?case using Cons.IH [of "edit q a pb"] edit_keeps_default [of q a pb] by simp
qed

text \<open>
  After any user actions, \<^verbatim>\<open>reset()\<close> followed by \<^verbatim>\<open>apply()\<close> sets the slot to the
  default as the control holds it.
\<close>

lemma reset_apply_in_control:
  assumes "takesDefault q pb"
  shows "slot (apply_param q (reset q (foldl (\<lambda>p a. edit q a p) pb as))) = defaultInControl q pb"
  using assms edits_keep_default [of q pb as]
    reset_apply_slot [of q "foldl (\<lambda>p a. edit q a p) pb as"]
  by simp

text \<open>The default a parameter captured at construction, \<^verbatim>\<open>defVal\<close>, in the type of the slot.\<close>

fun defaultValue :: "ParamBase \<Rightarrow> QVariant" where
  "defaultValue (DoubleParam n p d s) = VDouble d"
| "defaultValue (IntParam n p d s) = VInt d"
| "defaultValue (StringParam n p d e) = VString d"
| "defaultValue (PasswordParam n p d e) = VString d"
| "defaultValue (ComboParam n os p d c) = VInt d"
| "defaultValue (ColorParam n p d b) = VColor d"
| "defaultValue (FilePathParam n p d e) = VString d"
| "defaultValue (DirParam n p d e) = VString d"
| "defaultValue (BoolParam n p d c) = VBool d"
| "defaultValue (FontParam n p d b f) = VFont d"
| "defaultValue (DateTimeParam n p d e) = VDateTime d"
| "defaultValue (RangeParam n p d s1 s2) = VRange (fst d) (snd d)"
| "defaultValue (StringListParam n p d c) = VStringList d"
| "defaultValue (DateParam n p d e) = VDate d"
| "defaultValue (TimeParam n p d e) = VTime d"
| "defaultValue (PointParam n p d xs ys) = VPoint (fst d) (snd d)"
| "defaultValue (SizeParam n p d ws hs) = VSize (fst d) (snd d)"
| "defaultValue (RectParam n p d xs ys ws hs) = (case d of (x, y, w, h) \<Rightarrow> VRect x y w h)"
| "defaultValue (VariantParam n p d e) = d"
| "defaultValue (FloatParam n p d s) = VFloat d"

text \<open>
  The control of the parameter can hold the default unchanged: a number lies in the range
  of its spin box and the rounding of a double spin box keeps it, a choice index names an
  item or is -1, a text is no longer than a line edit takes, a colour is the colour its
  name stands for, a date or time is valid and within the range of the edit, the default
  of a \<^verbatim>\<open>VariantParam\<close> is a text. Nothing is said of the string list parameter.
\<close>

definition holdsDefault :: "qt \<Rightarrow> ParamBase \<Rightarrow> bool" where
  "holdsDefault q pb =
     (case pb of
        DoubleParam n p d s \<Rightarrow> dbound q (dminimum s) (dround q d) (dmaximum s) = d
      | IntParam n p d s \<Rightarrow> minimum s \<le> d \<and> d \<le> maximum s
      | StringParam n p d e \<Rightarrow> length d \<le> 32767
      | PasswordParam n p d e \<Rightarrow> length d \<le> 32767
      | ComboParam n os p d c \<Rightarrow> (0 \<le> d \<and> d < int (length (items c))) \<or> d = - 1
      | ColorParam n p d b \<Rightarrow> colorFromString q (colorName q d) = d
      | FilePathParam n p d e \<Rightarrow> length d \<le> 32767
      | DirParam n p d e \<Rightarrow> length d \<le> 32767
      | BoolParam n p d c \<Rightarrow> True
      | FontParam n p d b f \<Rightarrow> True
      | DateTimeParam n p d e \<Rightarrow> dateTimeIsValid q d \<and> dateTimeInEdit q d = d
      | RangeParam n p d s1 s2 \<Rightarrow>
          dbound q (dminimum s1) (dround q (fst d)) (dmaximum s1) = fst d
          \<and> dbound q (dminimum s2) (dround q (snd d)) (dmaximum s2) = snd d
      | StringListParam n p d c \<Rightarrow> False
      | DateParam n p d e \<Rightarrow> dateIsValid q d \<and> dateInEdit q d = d
      | TimeParam n p d e \<Rightarrow> timeIsValid q d
      | PointParam n p d xs ys \<Rightarrow>
          minimum xs \<le> fst d \<and> fst d \<le> maximum xs
          \<and> minimum ys \<le> snd d \<and> snd d \<le> maximum ys
      | SizeParam n p d ws hs \<Rightarrow>
          minimum ws \<le> fst d \<and> fst d \<le> maximum ws
          \<and> minimum hs \<le> snd d \<and> snd d \<le> maximum hs
      | RectParam n p d xs ys ws hs \<Rightarrow>
          (case d of (x, y, w, h) \<Rightarrow>
             minimum xs \<le> x \<and> x \<le> maximum xs \<and> minimum ys \<le> y \<and> y \<le> maximum ys
             \<and> minimum ws \<le> w \<and> w \<le> maximum ws \<and> minimum hs \<le> h \<and> h \<le> maximum hs)
      | VariantParam n p d e \<Rightarrow> d = VString (take 32767 (variantToString q d))
      | FloatParam n p d s \<Rightarrow>
          doubleToFloat q (dbound q (dminimum s) (dround q (floatToDouble q d)) (dmaximum s)) = d)"

lemma bound_within: "lo \<le> v \<Longrightarrow> v \<le> hi \<Longrightarrow> bound lo v hi = v"
  by (simp add: bound_def Let_def)

lemma held_default_in_control:
  "holdsDefault q pb \<Longrightarrow> takesDefault q pb \<and> defaultInControl q pb = defaultValue pb"
  by (cases pb) (auto simp: holdsDefault_def takesDefault_def bound_within split: prod.splits)

text \<open>
  C7, as amended. When the control can hold the default unchanged, then after any user
  actions \<^verbatim>\<open>reset()\<close> followed by \<^verbatim>\<open>apply()\<close> sets the slot to exactly the default
  captured at construction.
\<close>

theorem reset_apply_exact_default:
  assumes "holdsDefault q pb"
  shows "slot (apply_param q (reset q (foldl (\<lambda>p a. edit q a p) pb as))) = defaultValue pb"
  using held_default_in_control [OF assms] reset_apply_in_control [of q pb as]
  by simp

theorem reset_apply_exact_default_witness:
  "holdsDefault qtPlain (newStringParam ''Message'' ''Hello World'' ''Default'')
   \<and> slot (apply_param qtPlain (reset qtPlain
        (foldl (\<lambda>p a. edit qtPlain a p) (newStringParam ''Message'' ''Hello World'' ''Default'')
           [TypeText ''Bye'', PressDef, TypeText ''Again''])))
     = VString ''Default''"
proof -
  have h: "holdsDefault qtPlain (newStringParam ''Message'' ''Hello World'' ''Default'')"
    by (simp add: holdsDefault_def newStringParam_def)
  show ?thesis
    using h reset_apply_exact_default [OF h, of "[TypeText ''Bye'', PressDef, TypeText ''Again'']"]
    by (simp add: newStringParam_def)
qed

text \<open>
  C7 as stated fails twice. The default of a \<^verbatim>\<open>StringParam\<close> is the \<^verbatim>\<open>def\<close> argument of
  its constructor, not the value of the slot: with the arguments of \<^verbatim>\<open>main.cpp\<close> the
  slot held \<open>Hello World\<close> at construction and holds \<open>Default\<close> after reset and apply.
  And the control bounds what it is set to: an \<^verbatim>\<open>IntParam\<close> of range 0 to 100 made on a
  slot that holds 150 writes 100.
\<close>

theorem reset_apply_not_initial_slot:
  "slot (apply_param qtPlain (reset qtPlain (newStringParam ''Message'' ''Hello World'' ''Default'')))
   \<noteq> slot (newStringParam ''Message'' ''Hello World'' ''Default'')
   \<and> slot (apply_param qtPlain (reset qtPlain (newIntParam ''Answer'' 150 0 100)))
   \<noteq> slot (newIntParam ''Answer'' 150 0 100)"
  by (simp add: newStringParam_def setText_def newIntParam_def setValue_def setRange_def
      newSpinBox_def bound_def Let_def)

text \<open>The default each constructor captures.\<close>

lemma default_captured:
  shows "defaultValue (newDoubleParam q n dv dlo dhi) = VDouble dv"
    and "defaultValue (newIntParam n iv lo hi) = VInt iv"
    and "defaultValue (newFloatParam q n fv flo fhi) = VFloat fv"
    and "defaultValue (newStringParam n s sdef) = VString sdef"
    and "defaultValue (newPasswordParam n s sdef) = VString sdef"
    and "defaultValue (newFilePathParam n s sdef) = VString sdef"
    and "defaultValue (newDirParam n s sdef) = VString sdef"
    and "defaultValue (newComboParam n opts i idef) = VInt idef"
    and "defaultValue (newColorParam q n c cdef) = VColor cdef"
    and "defaultValue (newBoolParam n b bdef) = VBool bdef"
    and "defaultValue (newFontParam q n f fdef) = VFont fdef"
    and "defaultValue (newDateTimeParam q n dt dtdef) = VDateTime dtdef"
    and "defaultValue (newDateParam q n da dadef) = VDate dadef"
    and "defaultValue (newTimeParam q n ti tidef) = VTime tidef"
    and "defaultValue (newRangeParam q n r gmin gmax rdef) = VRange (fst rdef) (snd rdef)"
    and "defaultValue (newPointParam n pt ptdef) = VPoint (fst ptdef) (snd ptdef)"
    and "defaultValue (newSizeParam n sz szdef) = VSize (fst szdef) (snd szdef)"
    and "defaultValue (newVariantParam q n va vadef) = vadef"
  by (simp_all add: newDoubleParam_def newIntParam_def newFloatParam_def newStringParam_def
      newPasswordParam_def newFilePathParam_def newDirParam_def newComboParam_def
      newColorParam_def newBoolParam_def newFontParam_def newDateTimeParam_def newDateParam_def
      newTimeParam_def newRangeParam_def newPointParam_def newSizeParam_def newVariantParam_def)

text \<open>What the constructors capture as the default.\<close>

lemma default_of_new:
  shows "defaultInControl q (newStringParam n p def) = VString (take 32767 def)"
    and "defaultInControl q (newPasswordParam n p def) = VString (take 32767 def)"
    and "defaultInControl q (newFilePathParam n p def) = VString (take 32767 def)"
    and "defaultInControl q (newDirParam n p def) = VString (take 32767 def)"
    and "defaultInControl q (newBoolParam n b bdef) = VBool bdef"
    and "defaultInControl q (newFontParam q n f fdef) = VFont fdef"
    and "defaultInControl q (newColorParam q n c cdef) = VColor (colorFromString q (colorName q cdef))"
    and "defaultInControl q (newComboParam n opts i idef)
         = VInt (if 0 \<le> idef \<and> idef < int (length opts) then idef else - 1)"
    and "lo \<le> v \<Longrightarrow> v \<le> hi \<Longrightarrow> defaultInControl q (newIntParam n v lo hi) = VInt v"
    and "INT_MIN \<le> x \<Longrightarrow> x \<le> INT_MAX \<Longrightarrow> INT_MIN \<le> y \<Longrightarrow> y \<le> INT_MAX
         \<Longrightarrow> defaultInControl q (newPointParam n pt (x, y)) = VPoint x y"
    and "0 \<le> w \<Longrightarrow> w \<le> INT_MAX \<Longrightarrow> 0 \<le> h \<Longrightarrow> h \<le> INT_MAX
         \<Longrightarrow> defaultInControl q (newSizeParam n sz (w, h)) = VSize w h"
    and "defaultInControl q (newVariantParam q n va vdef)
         = VString (take 32767 (variantToString q vdef))"
    and "defaultInControl q (newDateParam q n da ddef) = VDate (dateInEdit q ddef)"
    and "defaultInControl q (newTimeParam q n ti tdef) = VTime tdef"
    and "defaultInControl q (newDateTimeParam q n dt dtdef) = VDateTime (dateTimeInEdit q dtdef)"
  by (auto simp: newStringParam_def newPasswordParam_def newFilePathParam_def newDirParam_def
      newBoolParam_def newFontParam_def newColorParam_def newComboParam_def newIntParam_def
      newPointParam_def newSizeParam_def newVariantParam_def newDateParam_def newTimeParam_def
      newDateTimeParam_def setCurrentIndex_def addItems_def newComboBox_def setValue_def
      setRange_def newSpinBox_def bound_def INT_MIN_def INT_MAX_def Let_def)

section \<open>The property adapter\<close>

record PropertyInfo =
  piName :: string
  displayName :: string
  tooltip :: string
  category :: string
  piMin :: qdouble
  piMax :: qdouble
  piStep :: qdouble
  enumNames :: "string list"

text \<open>
  The conversions of the value a property is read as. A property of a type holds a value
  of that type; read as another type, the value is the default of the target type here.
  An invalid variant, which is what a missing property reads as, converts to 0.0.
\<close>

definition startsWith :: "string \<Rightarrow> string \<Rightarrow> bool" where
  "startsWith s pre = (take (length pre) s = pre)"

definition asString :: "qt \<Rightarrow> QVariant \<Rightarrow> string" where
  "asString q v = (case v of VString s \<Rightarrow> s | _ \<Rightarrow> variantToString q v)"

definition asDouble :: "qt \<Rightarrow> QVariant \<Rightarrow> qdouble" where
  "asDouble q v = (case v of VDouble d \<Rightarrow> d | VInvalid \<Rightarrow> dzero | _ \<Rightarrow> variantToDouble q v)"

definition asFloat :: "qt \<Rightarrow> QVariant \<Rightarrow> qfloat" where
  "asFloat q v = (case v of VFloat f \<Rightarrow> f | _ \<Rightarrow> doubleToFloat q (variantToDouble q v))"

definition asInt :: "QVariant \<Rightarrow> int" where
  "asInt v = (case v of VInt i \<Rightarrow> i | _ \<Rightarrow> 0)"

definition asBool :: "QVariant \<Rightarrow> bool" where
  "asBool v = (case v of VBool b \<Rightarrow> b | _ \<Rightarrow> False)"

definition asColor :: "QVariant \<Rightarrow> qcolor" where
  "asColor v = (case v of VColor c \<Rightarrow> c | _ \<Rightarrow> InvalidColor)"

definition asStringList :: "QVariant \<Rightarrow> string list" where
  "asStringList v = (case v of VStringList l \<Rightarrow> l | _ \<Rightarrow> [])"

definition asDate :: "qt \<Rightarrow> QVariant \<Rightarrow> qdate" where
  "asDate q v = (case v of VDate d \<Rightarrow> d | _ \<Rightarrow> dateFromISO q [])"

definition asTime :: "qt \<Rightarrow> QVariant \<Rightarrow> qtime" where
  "asTime q v = (case v of VTime t \<Rightarrow> t | _ \<Rightarrow> timeFromISO q [])"

definition asPoint :: "QVariant \<Rightarrow> int \<times> int" where
  "asPoint v = (case v of VPoint x y \<Rightarrow> (x, y) | _ \<Rightarrow> (0, 0))"

definition asSize :: "QVariant \<Rightarrow> int \<times> int" where
  "asSize v = (case v of VSize w h \<Rightarrow> (w, h) | _ \<Rightarrow> (- 1, - 1))"

definition asRect :: "QVariant \<Rightarrow> int \<times> int \<times> int \<times> int" where
  "asRect v = (case v of VRect x y w h \<Rightarrow> (x, y, w, h) | _ \<Rightarrow> (0, 0, 0, 0))"

definition extractPropertyInfo :: "qt \<Rightarrow> QObject \<Rightarrow> QMetaProperty \<Rightarrow> PropertyInfo" where
  "extractPropertyInfo q obj prop =
     (let nm = propName prop;
          cleanName = map (\<lambda>c. if c = CHR ''_'' then CHR '' '' else c)
                          (if startsWith nm ''m_'' then drop 2 nm else nm);
          displayVar = property obj (nm @ ''Display'');
          tooltipVar = property obj (nm @ ''Tooltip'');
          categoryVar = property obj (nm @ ''Category'')
      in \<lparr>piName = nm,
          displayName = (if displayVar \<noteq> VInvalid then asString q displayVar else cleanName),
          tooltip = (if tooltipVar \<noteq> VInvalid then asString q tooltipVar else []),
          category = (if categoryVar \<noteq> VInvalid then asString q categoryVar else []),
          piMin = asDouble q (property obj (nm @ ''Min'')),
          piMax = asDouble q (property obj (nm @ ''Max'')),
          piStep = asDouble q (property obj (nm @ ''Step'')),
          enumNames = (if isEnumType prop then enumKeys prop else [])\<rparr>)"

text \<open>
  The parameter each \<^verbatim>\<open>create...Param\<close> constructs on its new value buffer, which holds
  the value read from the property.
\<close>

definition hasRange :: "PropertyInfo \<Rightarrow> bool" where
  "hasRange info = (nonZero (piMin info) \<or> nonZero (piMax info))"

definition intParamFor :: "qt \<Rightarrow> QMetaProperty \<Rightarrow> PropertyInfo \<Rightarrow> ParamBase" where
  "intParamFor q prop info =
     newIntParam (displayName info) (asInt (propValue prop))
       (if hasRange info then doubleToInt q (piMin info) else INT_MIN)
       (if hasRange info then doubleToInt q (piMax info) else INT_MAX)"

definition doubleParamFor :: "qt \<Rightarrow> QMetaProperty \<Rightarrow> PropertyInfo \<Rightarrow> ParamBase" where
  "doubleParamFor q prop info =
     newDoubleParam q (displayName info) (asDouble q (propValue prop))
       (if hasRange info then piMin info else Double 0xFFEFFFFFFFFFFFFF)
       (if hasRange info then piMax info else Double 0x7FEFFFFFFFFFFFFF)"

definition floatParamFor :: "qt \<Rightarrow> QMetaProperty \<Rightarrow> PropertyInfo \<Rightarrow> ParamBase" where
  "floatParamFor q prop info =
     newFloatParam q (displayName info) (asFloat q (propValue prop))
       (if hasRange info then doubleToFloat q (piMin info) else Float 0xFF7FFFFF)
       (if hasRange info then doubleToFloat q (piMax info) else Float 0x7F7FFFFF)"

definition boolParamFor :: "QMetaProperty \<Rightarrow> PropertyInfo \<Rightarrow> ParamBase" where
  "boolParamFor prop info =
     newBoolParam (displayName info) (asBool (propValue prop)) (asBool (propValue prop))"

definition stringParamFor :: "qt \<Rightarrow> QMetaProperty \<Rightarrow> PropertyInfo \<Rightarrow> ParamBase" where
  "stringParamFor q prop info =
     newStringParam (displayName info) (asString q (propValue prop)) (asString q (propValue prop))"

definition colorParamFor :: "qt \<Rightarrow> QMetaProperty \<Rightarrow> PropertyInfo \<Rightarrow> ParamBase" where
  "colorParamFor q prop info =
     newColorParam q (displayName info) (asColor (propValue prop)) (asColor (propValue prop))"

definition stringListParamFor :: "QMetaProperty \<Rightarrow> PropertyInfo \<Rightarrow> ParamBase" where
  "stringListParamFor prop info =
     newStringListParam (displayName info) (asStringList (propValue prop))
       (asStringList (propValue prop))"

definition dateParamFor :: "qt \<Rightarrow> QMetaProperty \<Rightarrow> PropertyInfo \<Rightarrow> ParamBase" where
  "dateParamFor q prop info =
     newDateParam q (displayName info) (asDate q (propValue prop)) (asDate q (propValue prop))"

definition timeParamFor :: "qt \<Rightarrow> QMetaProperty \<Rightarrow> PropertyInfo \<Rightarrow> ParamBase" where
  "timeParamFor q prop info =
     newTimeParam q (displayName info) (asTime q (propValue prop)) (asTime q (propValue prop))"

definition pointParamFor :: "QMetaProperty \<Rightarrow> PropertyInfo \<Rightarrow> ParamBase" where
  "pointParamFor prop info =
     newPointParam (displayName info) (asPoint (propValue prop)) (asPoint (propValue prop))"

definition sizeParamFor :: "QMetaProperty \<Rightarrow> PropertyInfo \<Rightarrow> ParamBase" where
  "sizeParamFor prop info =
     newSizeParam (displayName info) (asSize (propValue prop)) (asSize (propValue prop))"

definition rectParamFor :: "QMetaProperty \<Rightarrow> PropertyInfo \<Rightarrow> ParamBase" where
  "rectParamFor prop info =
     newRectParam (displayName info) (asRect (propValue prop)) (asRect (propValue prop))"

definition variantParamFor :: "qt \<Rightarrow> QMetaProperty \<Rightarrow> PropertyInfo \<Rightarrow> ParamBase" where
  "variantParamFor q prop info =
     newVariantParam q (displayName info) (propValue prop) (propValue prop)"

definition enumParamFor :: "QMetaProperty \<Rightarrow> PropertyInfo \<Rightarrow> ParamBase" where
  "enumParamFor prop info =
     newComboParam (displayName info) (enumNames info) (asInt (propValue prop))
       (asInt (propValue prop))"

text \<open>
  \<^verbatim>\<open>setupParamConnections\<close>: the write-back is connected to \<^verbatim>\<open>accepted\<close>, then the
  parameter is handed to \<^verbatim>\<open>addParam\<close>. \<open>o\<close> is the object, \<open>i\<close> the index of the property.
\<close>

definition bufferOf :: "ParamsEditor \<Rightarrow> int \<Rightarrow> ParamBase \<Rightarrow> buffer" where
  "bufferOf e tabIndex param =
     (if tabIndex < 0 \<or> tabIndex \<ge> int (length (allParams e)) then Detached (slot param)
      else Registered (nat tabIndex, length (allParams e ! nat tabIndex)))"

definition setupParamConnections ::
  "ParamsEditor \<Rightarrow> int \<Rightarrow> ParamBase \<Rightarrow> nat \<Rightarrow> nat \<Rightarrow> ParamsEditor" where
  "setupParamConnections e tabIndex param ob i =
     addParam tabIndex param
       (e\<lparr>acceptedSlots := acceptedSlots e
             @ [\<lparr>asObject = ob, asProperty = i, asBuffer = bufferOf e tabIndex param\<rparr>]\<rparr>)"

text \<open>
  \<^verbatim>\<open>createEnumParam\<close>: no write-back on \<^verbatim>\<open>accepted\<close>; the property is written from the
  lambda connected to \<^verbatim>\<open>currentIndexChanged\<close>. A combo box that \<^verbatim>\<open>addParam\<close> did not put
  on a page is never shown and emits nothing.
\<close>

definition createEnumParam ::
  "ParamsEditor \<Rightarrow> int \<Rightarrow> nat \<Rightarrow> nat \<Rightarrow> QMetaProperty \<Rightarrow> PropertyInfo \<Rightarrow> ParamsEditor" where
  "createEnumParam e tabIndex ob i prop info =
     addParam tabIndex (enumParamFor prop info)
       (case bufferOf e tabIndex (enumParamFor prop info) of
          Registered pl \<Rightarrow>
            e\<lparr>indexChangedSlots := indexChangedSlots e
                 @ [\<lparr>icPlace = pl, icObject = ob, icProperty = i\<rparr>]\<rparr>
        | Detached v \<Rightarrow> e)"

text \<open>\<^verbatim>\<open>createParamForProperty\<close>: the cascade over the type of the property.\<close>

definition createParamForProperty ::
  "qt \<Rightarrow> ParamsEditor \<Rightarrow> int \<Rightarrow> nat \<Rightarrow> nat \<Rightarrow> QMetaProperty \<Rightarrow> PropertyInfo \<Rightarrow> ParamsEditor" where
  "createParamForProperty q e tabIndex ob i prop info =
     (let ty = userType prop in
      if ty = TInt then setupParamConnections e tabIndex (intParamFor q prop info) ob i
      else if ty = TDouble then setupParamConnections e tabIndex (doubleParamFor q prop info) ob i
      else if ty = TFloat then setupParamConnections e tabIndex (floatParamFor q prop info) ob i
      else if ty = TBool then setupParamConnections e tabIndex (boolParamFor prop info) ob i
      else if ty = TQString then setupParamConnections e tabIndex (stringParamFor q prop info) ob i
      else if ty = TQColor then setupParamConnections e tabIndex (colorParamFor q prop info) ob i
      else if ty = TQStringList
        then setupParamConnections e tabIndex (stringListParamFor prop info) ob i
      else if ty = TQDate then setupParamConnections e tabIndex (dateParamFor q prop info) ob i
      else if ty = TQTime then setupParamConnections e tabIndex (timeParamFor q prop info) ob i
      else if ty = TQPoint then setupParamConnections e tabIndex (pointParamFor prop info) ob i
      else if ty = TQSize then setupParamConnections e tabIndex (sizeParamFor prop info) ob i
      else if ty = TQRect then setupParamConnections e tabIndex (rectParamFor prop info) ob i
      else if ty = TQVariant
        then setupParamConnections e tabIndex (variantParamFor q prop info) ob i
      else if isEnumType prop then createEnumParam e tabIndex ob i prop info
      else e)"

text \<open>
  The body of the loop of \<^verbatim>\<open>bindObjectToEditor\<close> for the property of index \<open>i\<close>, on the
  editor and the map \<^verbatim>\<open>categoryToTabIndex\<close>.
\<close>

definition bindProperty ::
  "qt \<Rightarrow> QObject \<Rightarrow> nat \<Rightarrow> string \<Rightarrow> ParamsEditor \<times> (string \<rightharpoonup> int) \<Rightarrow> nat \<times> QMetaProperty
   \<Rightarrow> ParamsEditor \<times> (string \<rightharpoonup> int)" where
  "bindProperty q obj ob defaultTabName em ip =
     (let prop = snd ip in
      if \<not> isWritable prop then em
      else let info = extractPropertyInfo q obj prop;
               cat = (if category info = [] then defaultTabName else category info);
               em1 = (case snd em cat of
                        Some t \<Rightarrow> em
                      | None \<Rightarrow> (snd (addTab cat (fst em)),
                                 (snd em)(cat \<mapsto> fst (addTab cat (fst em)))))
           in case snd em1 cat of
                Some t \<Rightarrow> (createParamForProperty q (fst em1) t ob (fst ip) prop info, snd em1)
              | None \<Rightarrow> em1)"

text \<open>
  \<^verbatim>\<open>bindObjectToEditor(editor, obj, defaultTabName)\<close>. The object the lambdas capture is
  kept with the editor, as the last of its objects.
\<close>

definition bindObjectToEditor :: "qt \<Rightarrow> QObject \<Rightarrow> string \<Rightarrow> ParamsEditor \<Rightarrow> ParamsEditor" where
  "bindObjectToEditor q obj defaultTabName e =
     fst (foldl (bindProperty q obj (length (objects e)) defaultTabName)
            (e\<lparr>objects := objects e @ [obj]\<rparr>, Map.empty)
            (enumerate 0 (metaProperties obj)))"

section \<open>What binding an object adds to the editor\<close>

text \<open>
  The property types \<^verbatim>\<open>createParamForProperty\<close> has a branch for, the parameter it makes
  for a property of such a type, and the category a property is routed to.
\<close>

definition supported :: "QMetaProperty \<Rightarrow> bool" where
  "supported prop =
     (userType prop \<in> {TInt, TDouble, TFloat, TBool, TQString, TQColor, TQStringList, TQDate,
                        TQTime, TQPoint, TQSize, TQRect, TQVariant}
      \<or> isEnumType prop)"

definition paramOf :: "qt \<Rightarrow> QObject \<Rightarrow> QMetaProperty \<Rightarrow> ParamBase" where
  "paramOf q obj prop =
     (let info = extractPropertyInfo q obj prop; ty = userType prop in
      if ty = TInt then intParamFor q prop info
      else if ty = TDouble then doubleParamFor q prop info
      else if ty = TFloat then floatParamFor q prop info
      else if ty = TBool then boolParamFor prop info
      else if ty = TQString then stringParamFor q prop info
      else if ty = TQColor then colorParamFor q prop info
      else if ty = TQStringList then stringListParamFor prop info
      else if ty = TQDate then dateParamFor q prop info
      else if ty = TQTime then timeParamFor q prop info
      else if ty = TQPoint then pointParamFor prop info
      else if ty = TQSize then sizeParamFor prop info
      else if ty = TQRect then rectParamFor prop info
      else if ty = TQVariant then variantParamFor q prop info
      else enumParamFor prop info)"

definition resolvedCategory :: "qt \<Rightarrow> QObject \<Rightarrow> string \<Rightarrow> QMetaProperty \<Rightarrow> string" where
  "resolvedCategory q obj defaultTabName prop =
     (if category (extractPropertyInfo q obj prop) = [] then defaultTabName
      else category (extractPropertyInfo q obj prop))"

text \<open>The members of a list in the order of their first occurrence.\<close>

definition firstOccurrences :: "'a list \<Rightarrow> 'a list" where
  "firstOccurrences xs = rev (remdups (rev xs))"

text \<open>
  The group of a category: the parameters of the writable, supported properties routed to
  it, in the order of the properties.
\<close>

definition groupOf ::
  "qt \<Rightarrow> QObject \<Rightarrow> string \<Rightarrow> QMetaProperty list \<Rightarrow> string \<Rightarrow> ParamBase list" where
  "groupOf q obj defaultTabName props c =
     map (paramOf q obj)
       (filter (\<lambda>p. isWritable p \<and> supported p \<and> resolvedCategory q obj defaultTabName p = c)
          props)"

definition categoriesOf :: "qt \<Rightarrow> QObject \<Rightarrow> string \<Rightarrow> QMetaProperty list \<Rightarrow> string list" where
  "categoriesOf q obj defaultTabName props =
     firstOccurrences (map (resolvedCategory q obj defaultTabName) (filter isWritable props))"

lemma firstOccurrences_snoc:
  "firstOccurrences (xs @ [x])
   = (if x \<in> set xs then firstOccurrences xs else firstOccurrences xs @ [x])"
  by (simp add: firstOccurrences_def)

lemma firstOccurrences_set: "set (firstOccurrences xs) = set xs"
  by (simp add: firstOccurrences_def)

lemma firstOccurrences_distinct: "distinct (firstOccurrences xs)"
  by (simp add: firstOccurrences_def)

lemma categoriesOf_snoc:
  "categoriesOf q obj dflt (ps @ [p])
   = (if isWritable p \<and> resolvedCategory q obj dflt p \<notin> set (categoriesOf q obj dflt ps)
      then categoriesOf q obj dflt ps @ [resolvedCategory q obj dflt p]
      else categoriesOf q obj dflt ps)"
  by (simp add: categoriesOf_def firstOccurrences_snoc firstOccurrences_set)

lemma groupOf_snoc:
  "groupOf q obj dflt (ps @ [p]) c
   = groupOf q obj dflt ps c
     @ (if isWritable p \<and> supported p \<and> resolvedCategory q obj dflt p = c
        then [paramOf q obj p] else [])"
  by (simp add: groupOf_def)

lemma groupOf_absent:
  "c \<notin> set (categoriesOf q obj dflt ps) \<Longrightarrow> groupOf q obj dflt ps c = []"
  by (auto simp: groupOf_def categoriesOf_def firstOccurrences_set filter_empty_conv)

lemma addParam_allParams:
  "0 \<le> t \<Longrightarrow> t < int (length (allParams e))
   \<Longrightarrow> allParams (addParam t pb e) = (allParams e)[nat t := allParams e ! nat t @ [pb]]"
  by (simp add: addParam_def Let_def)

lemma update_same_title: "(map fst ts)[k := fst (ts ! k)] = map fst ts"
proof (cases "k < length ts")
  case True
  then have "fst (ts ! k) = map fst ts ! k" by simp
  then show ?thesis by (simp only: list_update_id)
next
  case False
  then show ?thesis by (simp add: list_update_beyond)
qed

lemma addParam_titles: "map fst (tabs (addParam t pb e)) = map fst (tabs e)"
  by (simp add: addParam_def Let_def map_update update_same_title)

lemma addParam_objects: "objects (addParam t pb e) = objects e"
  by (simp add: addParam_def Let_def)

lemma createParamForProperty_allParams:
  "allParams (createParamForProperty q e t ob i prop (extractPropertyInfo q obj prop))
   = (if supported prop then allParams (addParam t (paramOf q obj prop) e) else allParams e)"
  by (simp add: createParamForProperty_def supported_def paramOf_def setupParamConnections_def
      createEnumParam_def addParam_def Let_def split: buffer.splits)

lemma createParamForProperty_titles:
  "map fst (tabs (createParamForProperty q e t ob i prop info)) = map fst (tabs e)"
proof -
  have a: "\<And>pb x. map fst (tabs (addParam t pb (e\<lparr>acceptedSlots := x\<rparr>))) = map fst (tabs e)"
    using addParam_titles by simp
  have b: "\<And>pb x. map fst (tabs (addParam t pb (e\<lparr>indexChangedSlots := x\<rparr>))) = map fst (tabs e)"
    using addParam_titles by simp
  show ?thesis
    by (simp add: createParamForProperty_def setupParamConnections_def createEnumParam_def
        a b addParam_titles Let_def split: buffer.splits)
qed

text \<open>
  The state of the loop of \<^verbatim>\<open>bindObjectToEditor\<close> after the properties \<open>ps\<close>, on an
  editor \<open>e0\<close>: one new tab for each category met, in the order met, whose group holds the
  parameters of that category, and the map from each category to the index of its tab.
\<close>

definition bindInv ::
  "qt \<Rightarrow> QObject \<Rightarrow> string \<Rightarrow> ParamsEditor \<Rightarrow> QMetaProperty list
   \<Rightarrow> ParamsEditor \<times> (string \<rightharpoonup> int) \<Rightarrow> bool" where
  "bindInv q obj dflt e0 ps em =
     (map fst (tabs (fst em)) = map fst (tabs e0) @ categoriesOf q obj dflt ps
      \<and> allParams (fst em)
        = allParams e0 @ map (groupOf q obj dflt ps) (categoriesOf q obj dflt ps)
      \<and> (\<forall>k < length (categoriesOf q obj dflt ps).
            snd em (categoriesOf q obj dflt ps ! k) = Some (int (length (allParams e0) + k)))
      \<and> (\<forall>c. c \<notin> set (categoriesOf q obj dflt ps) \<longrightarrow> snd em c = None))"

lemma map_append_at:
  assumes "distinct cs" and "k < length cs"
  shows "map (\<lambda>c. g c @ (if c = cs ! k then x else [])) cs = (map g cs)[k := g (cs ! k) @ x]"
proof (rule nth_equalityI)
  show "length (map (\<lambda>c. g c @ (if c = cs ! k then x else [])) cs)
        = length ((map g cs)[k := g (cs ! k) @ x])"
    by simp
next
  fix j
  assume "j < length (map (\<lambda>c. g c @ (if c = cs ! k then x else [])) cs)"
  then have j: "j < length cs" by simp
  have "cs ! j = cs ! k \<longleftrightarrow> j = k"
    using assms j by (simp add: nth_eq_iff_index_eq)
  then show "map (\<lambda>c. g c @ (if c = cs ! k then x else [])) cs ! j
             = (map g cs)[k := g (cs ! k) @ x] ! j"
    using j assms(2) by (auto simp: nth_list_update)
qed

lemma bindInv_not_writable:
  assumes "bindInv q obj dflt e0 ps em" and "\<not> isWritable p"
  shows "bindInv q obj dflt e0 (ps @ [p]) (bindProperty q obj ob dflt em (i, p))"
proof -
  have "bindProperty q obj ob dflt em (i, p) = em"
    using assms(2) by (simp add: bindProperty_def)
  moreover have "categoriesOf q obj dflt (ps @ [p]) = categoriesOf q obj dflt ps"
    using assms(2) by (simp add: categoriesOf_snoc)
  moreover have "groupOf q obj dflt (ps @ [p]) = groupOf q obj dflt ps"
    using assms(2) by (simp add: groupOf_snoc fun_eq_iff)
  ultimately show ?thesis using assms(1) by (simp add: bindInv_def)
qed

lemma bindInv_known_category:
  assumes inv: "bindInv q obj dflt e0 ps em"
    and w: "isWritable p"
    and k: "k < length (categoriesOf q obj dflt ps)"
    and c: "categoriesOf q obj dflt ps ! k = resolvedCategory q obj dflt p"
  shows "bindInv q obj dflt e0 (ps @ [p]) (bindProperty q obj ob dflt em (i, p))"
proof -
  let ?C = "categoriesOf q obj dflt ps"
  let ?c = "resolvedCategory q obj dflt p"
  let ?G = "groupOf q obj dflt ps"
  let ?A0 = "allParams e0"
  let ?t = "int (length ?A0 + k)"
  let ?info = "extractPropertyInfo q obj p"
  have mem: "?c \<in> set ?C" using k c by (metis nth_mem)
  have m: "snd em ?c = Some ?t"
    using inv k c by (auto simp: bindInv_def)
  have cat: "(if category ?info = [] then dflt else category ?info) = ?c"
    by (simp add: resolvedCategory_def)
  have step: "bindProperty q obj ob dflt em (i, p)
              = (createParamForProperty q (fst em) ?t ob i p ?info, snd em)"
    using w m by (simp add: bindProperty_def Let_def cat)
  have C': "categoriesOf q obj dflt (ps @ [p]) = ?C"
    using mem by (simp add: categoriesOf_snoc)
  have A: "allParams (fst em) = ?A0 @ map ?G ?C"
    using inv by (simp add: bindInv_def)
  have T: "map fst (tabs (fst em)) = map fst (tabs e0) @ ?C"
    using inv by (simp add: bindInv_def)
  have G': "map (groupOf q obj dflt (ps @ [p])) ?C
            = (map ?G ?C)[k := ?G (?C ! k) @ (if supported p then [paramOf q obj p] else [])]"
  proof -
    have "groupOf q obj dflt (ps @ [p])
          = (\<lambda>c'. ?G c' @ (if c' = ?C ! k then (if supported p then [paramOf q obj p] else [])
                            else []))"
      using w c by (auto simp: groupOf_snoc fun_eq_iff)
    then show ?thesis
      using map_append_at [OF firstOccurrences_distinct [of "map (resolvedCategory q obj dflt)
              (filter isWritable ps)", folded categoriesOf_def] k, of ?G]
      by simp
  qed
  have nt: "nat ?t = length ?A0 + k" by (simp only: nat_int)
  have inr: "0 \<le> ?t" "?t < int (length (allParams (fst em)))"
    using k A by simp_all
  have nth0: "(?A0 @ map ?G ?C) ! (length ?A0 + k) = ?G (?C ! k)"
    using k by (simp only: nth_append_length_plus nth_map)
  have "(?A0 @ map ?G ?C)[length ?A0 + k := ?G (?C ! k) @ [paramOf q obj p]]
        = ?A0 @ (map ?G ?C)[k := ?G (?C ! k) @ [paramOf q obj p]]"
    by (simp add: list_update_append)
  then have upd: "(allParams (fst em))[nat ?t := allParams (fst em) ! nat ?t @ [paramOf q obj p]]
             = ?A0 @ (map ?G ?C)[k := ?G (?C ! k) @ [paramOf q obj p]]"
    by (simp only: nt A nth0)
  have A': "allParams (createParamForProperty q (fst em) ?t ob i p ?info)
            = ?A0 @ map (groupOf q obj dflt (ps @ [p])) ?C"
  proof (cases "supported p")
    case True
    then show ?thesis
      using addParam_allParams [OF inr, of "paramOf q obj p"] upd G'
      by (simp add: createParamForProperty_allParams)
  next
    case False
    then have "groupOf q obj dflt (ps @ [p]) = ?G"
      by (simp add: groupOf_snoc fun_eq_iff)
    then show ?thesis
      using False A by (simp add: createParamForProperty_allParams)
  qed
  show ?thesis
    using inv A' T by (simp add: bindInv_def step C' createParamForProperty_titles)
qed

lemma update_last_group:
  "length xs = n \<Longrightarrow> (xs @ [y])[n := (xs @ [y]) ! n @ z] = xs @ [y @ z]"
  by auto

lemma bindInv_new_category:
  assumes aligned: "length (tabs e0) = length (allParams e0)"
    and inv: "bindInv q obj dflt e0 ps em"
    and w: "isWritable p"
    and nc: "resolvedCategory q obj dflt p \<notin> set (categoriesOf q obj dflt ps)"
  shows "bindInv q obj dflt e0 (ps @ [p]) (bindProperty q obj ob dflt em (i, p))"
proof -
  let ?C = "categoriesOf q obj dflt ps"
  let ?c = "resolvedCategory q obj dflt p"
  let ?G = "groupOf q obj dflt ps"
  let ?G' = "groupOf q obj dflt (ps @ [p])"
  let ?A0 = "allParams e0"
  let ?n = "length ?A0 + length ?C"
  let ?info = "extractPropertyInfo q obj p"
  let ?e1 = "snd (addTab ?c (fst em))"
  let ?new = "if supported p then [paramOf q obj p] else []"
  have A: "allParams (fst em) = ?A0 @ map ?G ?C"
    using inv by (simp add: bindInv_def)
  have T: "map fst (tabs (fst em)) = map fst (tabs e0) @ ?C"
    using inv by (simp add: bindInv_def)
  have "length (map fst (tabs (fst em))) = ?n"
    using aligned by (simp only: T length_append length_map)
  then have len: "length (tabs (fst em)) = ?n" by simp
  have m: "snd em ?c = None"
    using inv nc by (simp add: bindInv_def)
  have cat: "(if category ?info = [] then dflt else category ?info) = ?c"
    by (simp add: resolvedCategory_def)
  have idx: "fst (addTab ?c (fst em)) = int ?n"
    by (simp only: addTab_def fst_conv len)
  have step: "bindProperty q obj ob dflt em (i, p)
              = (createParamForProperty q ?e1 (int ?n) ob i p ?info, (snd em)(?c \<mapsto> int ?n))"
    using w m idx by (simp add: bindProperty_def Let_def cat)
  have C': "categoriesOf q obj dflt (ps @ [p]) = ?C @ [?c]"
    using w nc by (simp add: categoriesOf_snoc)
  have A1: "allParams ?e1 = ?A0 @ map ?G ?C @ [[]]"
    by (simp add: addTab_def A)
  have T1: "map fst (tabs ?e1) = map fst (tabs e0) @ ?C @ [?c]"
    by (simp add: addTab_def T)
  have old: "map ?G' ?C = map ?G ?C"
  proof (rule map_cong [OF refl])
    fix c' assume "c' \<in> set ?C"
    then have "c' \<noteq> ?c" using nc by auto
    then show "?G' c' = ?G c'" by (simp add: groupOf_snoc)
  qed
  have new: "?G' ?c = ?new"
    using w groupOf_absent [OF nc] by (simp add: groupOf_snoc)
  have G': "map ?G' (?C @ [?c]) = map ?G ?C @ [?new]"
    by (simp add: old new)
  have nn: "nat (int ?n) = ?n" by (simp only: nat_int)
  have ln: "?n = length (?A0 @ map ?G ?C)" by simp
  have A': "allParams (createParamForProperty q ?e1 (int ?n) ob i p ?info)
            = ?A0 @ map ?G' (?C @ [?c])"
  proof (cases "supported p")
    case True
    have inr: "0 \<le> int ?n" "int ?n < int (length (allParams ?e1))"
      by (simp_all add: A1)
    have "((?A0 @ map ?G ?C) @ [[]])[?n := ((?A0 @ map ?G ?C) @ [[]]) ! ?n @ [paramOf q obj p]]
          = (?A0 @ map ?G ?C) @ [[] @ [paramOf q obj p]]"
      by (rule update_last_group) simp
    then have "((?A0 @ map ?G ?C) @ [[]])[?n := ((?A0 @ map ?G ?C) @ [[]]) ! ?n @ [paramOf q obj p]]
          = (?A0 @ map ?G ?C) @ [[paramOf q obj p]]"
      by (simp only: append_Nil)
    then have "(allParams ?e1)[nat (int ?n) := allParams ?e1 ! nat (int ?n) @ [paramOf q obj p]]
               = ?A0 @ map ?G ?C @ [[paramOf q obj p]]"
      by (simp only: nn A1 append_assoc)
    then show ?thesis
      using True addParam_allParams [OF inr, of "paramOf q obj p"] G'
      by (simp add: createParamForProperty_allParams)
  next
    case False
    then show ?thesis
      using A1 G' by (simp add: createParamForProperty_allParams)
  qed
  have M1: "\<forall>k < length (?C @ [?c]).
              ((snd em)(?c \<mapsto> int ?n)) ((?C @ [?c]) ! k) = Some (int (length ?A0 + k))"
  proof (intro allI impI)
    fix k assume "k < length (?C @ [?c])"
    then consider "k < length ?C" | "k = length ?C" by fastforce
    then show "((snd em)(?c \<mapsto> int ?n)) ((?C @ [?c]) ! k) = Some (int (length ?A0 + k))"
    proof cases
      case 1
      then have "?C ! k \<noteq> ?c" using nc by (metis nth_mem)
      moreover have "snd em (?C ! k) = Some (int (length ?A0 + k))"
        using inv 1 by (simp add: bindInv_def)
      ultimately show ?thesis using 1 by (simp add: nth_append)
    next
      case 2
      then show ?thesis by simp
    qed
  qed
  have M2: "\<forall>c'. c' \<notin> set (?C @ [?c]) \<longrightarrow> ((snd em)(?c \<mapsto> int ?n)) c' = None"
    using inv by (simp add: bindInv_def)
  show ?thesis
    unfolding bindInv_def step C' fst_conv snd_conv
    using A' T1 M1 M2 by (simp only: createParamForProperty_titles simp_thms)
qed

lemma bindInv_fold:
  assumes "length (tabs e0) = length (allParams e0)"
  shows "bindInv q obj dflt e0 (map snd ips) (foldl (bindProperty q obj ob dflt) (e0, Map.empty) ips)"
proof (induction ips rule: rev_induct)
  case Nil
  show ?case by (simp add: bindInv_def categoriesOf_def firstOccurrences_def)
next
  case (snoc ip ips)
  let ?em = "foldl (bindProperty q obj ob dflt) (e0, Map.empty) ips"
  let ?C = "categoriesOf q obj dflt (map snd ips)"
  let ?c = "resolvedCategory q obj dflt (snd ip)"
  have "bindInv q obj dflt e0 (map snd ips @ [snd ip]) (bindProperty q obj ob dflt ?em (fst ip, snd ip))"
  proof (cases "isWritable (snd ip)")
    case False
    then show ?thesis using snoc.IH by (rule bindInv_not_writable [rotated])
  next
    case True
    show ?thesis
    proof (cases "?c \<in> set ?C")
      case True
      then obtain k where "k < length ?C" "?C ! k = ?c"
        by (auto simp: in_set_conv_nth)
      then show ?thesis
        using snoc.IH \<open>isWritable (snd ip)\<close> by (rule bindInv_known_category [rotated 2])
    next
      case False
      show ?thesis
        using assms snoc.IH \<open>isWritable (snd ip)\<close> False by (rule bindInv_new_category)
    qed
  qed
  then show ?case by simp
qed

text \<open>
  On an editor whose tab widget holds no help page, \<^verbatim>\<open>bindObjectToEditor\<close> appends one
  tab for each category its writable properties resolve to, in the order in which the
  categories are first met, and the group of each holds, in the order of the properties,
  one parameter for every writable property of a supported type that resolves to the
  category, and nothing else. The category of a property with no \<open>Category\<close> sibling is
  the default tab name.
\<close>

lemma bind_places_parameters:
  assumes "length (tabs e) = length (allParams e)"
  shows "map fst (tabs (bindObjectToEditor q obj dflt e))
         = map fst (tabs e) @ categoriesOf q obj dflt (metaProperties obj)
       \<and> allParams (bindObjectToEditor q obj dflt e)
         = allParams e @ map (groupOf q obj dflt (metaProperties obj))
                             (categoriesOf q obj dflt (metaProperties obj))
       \<and> distinct (categoriesOf q obj dflt (metaProperties obj))"
proof -
  let ?e0 = "e\<lparr>objects := objects e @ [obj]\<rparr>"
  have "length (tabs ?e0) = length (allParams ?e0)" using assms by simp
  then have "bindInv q obj dflt ?e0 (map snd (enumerate 0 (metaProperties obj)))
               (foldl (bindProperty q obj (length (objects e)) dflt) (?e0, Map.empty)
                  (enumerate 0 (metaProperties obj)))"
    by (rule bindInv_fold)
  then show ?thesis
    by (simp add: bindInv_def bindObjectToEditor_def categoriesOf_def firstOccurrences_distinct)
qed

text \<open>A property with no \<open>Category\<close> sibling resolves to the default tab name.\<close>

lemma resolvedCategory_default:
  "property obj (propName prop @ ''Category'') = VInvalid
   \<Longrightarrow> resolvedCategory q obj dflt prop = dflt"
  by (simp add: resolvedCategory_def extractPropertyInfo_def Let_def)

text \<open>The supported types are those for which the cascade makes a parameter.\<close>

lemma unsupported_creates_nothing:
  "\<not> supported prop \<Longrightarrow> createParamForProperty q e t ob i prop info = e"
  by (simp add: supported_def createParamForProperty_def Let_def)

text \<open>
  An object in the manner of \<^verbatim>\<open>ExtendedConfig\<close> of \<^verbatim>\<open>test.h\<close>: the \<^verbatim>\<open>objectName\<close> every
  \<^verbatim>\<open>QObject\<close> has, an integer, a font (a type without a branch in the cascade), a colour
  with a \<open>Category\<close> sibling, and that constant sibling.
\<close>

definition sampleConfig :: QObject where
  "sampleConfig =
     \<lparr>metaProperties =
        [\<lparr>propName = ''objectName'', isWritable = True, userType = TQString,
          isEnumType = False, enumKeys = [], propValue = VString []\<rparr>,
         \<lparr>propName = ''integerValue'', isWritable = True, userType = TInt,
          isEnumType = False, enumKeys = [], propValue = VInt 42\<rparr>,
         \<lparr>propName = ''fontValue'', isWritable = True, userType = TUser ''QFont'',
          isEnumType = False, enumKeys = [], propValue = VFont (QFont ''Arial,10'')\<rparr>,
         \<lparr>propName = ''colorValue'', isWritable = True, userType = TQColor,
          isEnumType = False, enumKeys = [], propValue = VColor (Rgba 0 0 255 255)\<rparr>,
         \<lparr>propName = ''colorValueCategory'', isWritable = False, userType = TQString,
          isEnumType = False, enumKeys = [], propValue = VString ''Appearance''\<rparr>],
      dynamicProperties = []\<rparr>"

lemma bind_places_parameters_example:
  "\<forall>q. length (tabs newParamsEditor) = length (allParams newParamsEditor)
     \<and> map fst (tabs (bindObjectToEditor q sampleConfig ''Class'' newParamsEditor))
       = [''Class'', ''Appearance'']
     \<and> map (map name) (allParams (bindObjectToEditor q sampleConfig ''Class'' newParamsEditor))
       = [[''objectName'', ''integerValue''], [''colorValue'']]"
proof
  fix q
  have a: "length (tabs newParamsEditor) = length (allParams newParamsEditor)"
    by (simp add: newParamsEditor_def)
  have c: "categoriesOf q sampleConfig ''Class'' (metaProperties sampleConfig)
           = [''Class'', ''Appearance'']"
    by code_simp
  have g1: "map name (groupOf q sampleConfig ''Class'' (metaProperties sampleConfig) ''Class'')
            = [''objectName'', ''integerValue'']"
    by code_simp
  have g2: "map name (groupOf q sampleConfig ''Class'' (metaProperties sampleConfig) ''Appearance'')
            = [''colorValue'']"
    by code_simp
  show "length (tabs newParamsEditor) = length (allParams newParamsEditor)
     \<and> map fst (tabs (bindObjectToEditor q sampleConfig ''Class'' newParamsEditor))
       = [''Class'', ''Appearance'']
     \<and> map (map name) (allParams (bindObjectToEditor q sampleConfig ''Class'' newParamsEditor))
       = [[''objectName'', ''integerValue''], [''colorValue'']]"
    using a bind_places_parameters [OF a, of q sampleConfig "''Class''"]
    by (simp add: c g1 g2 newParamsEditor_def)
qed

text \<open>
  C5. Binding is to make one parameter for each supported property and to place it in the
  tab of its category. On an editor whose tab widget holds the help page the indices
  \<^verbatim>\<open>addTab\<close> returns are off by one, as in C8: the tab of each category is made, and every
  parameter is handed to \<^verbatim>\<open>addParam\<close> with an index it refuses. Of the three supported
  writable properties of the sample object none is placed.
\<close>

theorem bind_after_setMainHelp:
  "map fst (tabs (bindObjectToEditor q sampleConfig ''Class'' (setMainHelp ''help'' newParamsEditor)))
   = [''Help'', ''Class'', ''Appearance'']
   \<and> allParams (bindObjectToEditor q sampleConfig ''Class'' (setMainHelp ''help'' newParamsEditor))
   = [[], []]"
  by code_simp

text \<open>
  Counted: binding adds as many parameters as the object has writable properties of a
  supported type.
\<close>

lemma count_one:
  "distinct cs \<Longrightarrow> a \<in> set cs \<Longrightarrow> (\<Sum>c\<leftarrow>cs. if c = a then 1 else (0::nat)) = 1"
  by (induction cs) (auto simp: sum_list_0)

lemma partition_length:
  assumes "distinct cs" and "\<forall>x \<in> set xs. P x \<longrightarrow> f x \<in> set cs"
  shows "length (concat (map (\<lambda>c. filter (\<lambda>x. P x \<and> f x = c) xs) cs)) = length (filter P xs)"
  using assms(2)
proof (induction xs)
  case Nil
  show ?case by (simp add: length_concat sum_list_0 comp_def)
next
  case (Cons x xs)
  have IH: "length (concat (map (\<lambda>c. filter (\<lambda>x. P x \<and> f x = c) xs) cs)) = length (filter P xs)"
    using Cons by simp
  have "length (concat (map (\<lambda>c. filter (\<lambda>y. P y \<and> f y = c) (x # xs)) cs))
        = (\<Sum>c\<leftarrow>cs. length (filter (\<lambda>y. P y \<and> f y = c) xs) + (if P x \<and> f x = c then 1 else 0))"
  proof -
    have "\<And>c. length (filter (\<lambda>y. P y \<and> f y = c) (x # xs))
              = length (filter (\<lambda>y. P y \<and> f y = c) xs) + (if P x \<and> f x = c then 1 else 0)"
      by simp
    then show ?thesis by (simp only: length_concat map_map comp_def)
  qed
  also have "\<dots> = (\<Sum>c\<leftarrow>cs. length (filter (\<lambda>y. P y \<and> f y = c) xs))
                  + (\<Sum>c\<leftarrow>cs. if P x \<and> f x = c then 1 else 0)"
    by (simp add: sum_list_addf)
  also have "(\<Sum>c\<leftarrow>cs. length (filter (\<lambda>y. P y \<and> f y = c) xs))
             = length (filter P xs)"
    using IH by (simp add: length_concat comp_def)
  also have "(\<Sum>c\<leftarrow>cs. if P x \<and> f x = c then 1 else 0) = (if P x then 1 else (0::nat))"
  proof (cases "P x")
    case True
    then have "f x \<in> set cs" using Cons.prems by simp
    then have "(\<Sum>c\<leftarrow>cs. if c = f x then 1 else (0::nat)) = 1"
      using assms(1) by (simp add: count_one)
    moreover have "(\<lambda>c. if P x \<and> f x = c then 1 else (0::nat)) = (\<lambda>c. if c = f x then 1 else 0)"
      using True by auto
    ultimately show ?thesis using True by simp
  next
    case False
    then show ?thesis by (simp add: sum_list_0)
  qed
  finally show ?case by simp
qed

lemma bind_one_parameter_each:
  assumes "length (tabs e) = length (allParams e)"
  shows "length (concat (allParams (bindObjectToEditor q obj dflt e)))
         = length (concat (allParams e))
           + length (filter (\<lambda>p. isWritable p \<and> supported p) (metaProperties obj))"
proof -
  let ?ps = "metaProperties obj"
  let ?C = "categoriesOf q obj dflt ?ps"
  have d: "distinct ?C"
    by (simp add: categoriesOf_def firstOccurrences_distinct)
  have m: "\<forall>p \<in> set ?ps. isWritable p \<and> supported p \<longrightarrow> resolvedCategory q obj dflt p \<in> set ?C"
    by (auto simp: categoriesOf_def firstOccurrences_set)
  have "length (concat (map (\<lambda>c. filter (\<lambda>p. (isWritable p \<and> supported p)
                                \<and> resolvedCategory q obj dflt p = c) ?ps) ?C))
        = length (filter (\<lambda>p. isWritable p \<and> supported p) ?ps)"
    using d m by (rule partition_length)
  moreover have "length (concat (map (groupOf q obj dflt ?ps) ?C))
        = length (concat (map (\<lambda>c. filter (\<lambda>p. (isWritable p \<and> supported p)
                                \<and> resolvedCategory q obj dflt p = c) ?ps) ?C))"
    by (simp add: groupOf_def length_concat comp_def conj_assoc)
  ultimately show ?thesis
    using bindInv_fold [of "e\<lparr>objects := objects e @ [obj]\<rparr>" q obj dflt
        "enumerate 0 ?ps" "length (objects e)"] assms
    by (simp add: bindInv_def bindObjectToEditor_def)
qed

section \<open>Bound objects and the transaction\<close>

text \<open>
  A bound integer property: after an edit, APPLY writes the buffer back into the property
  and CANCEL leaves the property as it was.
\<close>

lemma bound_integer_accept_and_reject:
  "property (objects (onApplyClicked q (userEdit q (0, 1) (SpinTo 0 7)
       (bindObjectToEditor q sampleConfig ''Class'' newParamsEditor))) ! 0) ''integerValue''
   = VInt 7
   \<and> property (objects (onCancelClicked (userEdit q (0, 1) (SpinTo 0 7)
       (bindObjectToEditor q sampleConfig ''Class'' newParamsEditor))) ! 0) ''integerValue''
   = VInt 42"
  by code_simp

text \<open>
  A bound enumeration: the lambda \<^verbatim>\<open>createEnumParam\<close> connects to the combo box writes the
  property when the user selects, so the property holds the selection after CANCEL.
\<close>

definition sampleMode :: QObject where
  "sampleMode =
     \<lparr>metaProperties =
        [\<lparr>propName = ''mode'', isWritable = True, userType = TUser ''Mode'',
          isEnumType = True, enumKeys = [''Fast'', ''Safe'', ''Off''], propValue = VInt 0\<rparr>],
      dynamicProperties = []\<rparr>"

lemma bound_enum_written_before_accept:
  "property (objects (bindObjectToEditor q sampleMode ''Class'' newParamsEditor) ! 0) ''mode''
   = VInt 0
   \<and> property (objects (onCancelClicked (userEdit q (0, 0) (Select 2)
       (bindObjectToEditor q sampleMode ''Class'' newParamsEditor))) ! 0) ''mode''
   = VInt 2"
  by code_simp

section \<open>The round trip of an integer parameter\<close>

text \<open>
  Where C3 holds: \<^verbatim>\<open>QString::number\<close> and \<^verbatim>\<open>toInt\<close> are inverse on every \<^verbatim>\<open>int\<close>, so an
  \<^verbatim>\<open>IntParam\<close> loaded from the element it saved has the control it had.
\<close>

declare digitsOf.simps [simp del]

lemma of_char_digit: "d < 10 \<Longrightarrow> (of_char (char_of (48 + d :: nat)) :: nat) = 48 + d"
  by (simp add: of_char_of)

lemma digitsOf_digits: "list_all isDigit (digitsOf n)"
proof (induction n rule: digitsOf.induct)
  case (1 n)
  have d: "isDigit (char_of (48 + n mod 10))"
    using of_char_digit [of "n mod 10"] by (simp add: isDigit_def)
  show ?case
  proof (cases "n < 10")
    case True
    then have "digitsOf n = [char_of (48 + n mod 10)]" by (subst digitsOf.simps) simp
    then show ?thesis using d by simp
  next
    case False
    then have "digitsOf n = digitsOf (n div 10) @ [char_of (48 + n mod 10)]"
      by (subst digitsOf.simps) simp
    then show ?thesis using d 1 False by simp
  qed
qed

lemma digitsOf_nonempty: "digitsOf n \<noteq> []"
  by (subst digitsOf.simps) simp

lemma digitsValue_snoc: "digitsValue (ds @ [c]) = 10 * digitsValue ds + (int (of_char c) - 48)"
  by (simp add: digitsValue_def)

lemma digitsValue_digitsOf: "digitsValue (digitsOf n) = int n"
proof (induction n rule: digitsOf.induct)
  case (1 n)
  show ?case
  proof (cases "n < 10")
    case True
    then have "digitsOf n = [char_of (48 + n)]" by (subst digitsOf.simps) simp
    then show ?thesis using True of_char_digit [of n] by (simp add: digitsValue_def)
  next
    case False
    then have e: "digitsOf n = digitsOf (n div 10) @ [char_of (48 + n mod 10)]"
      by (subst digitsOf.simps) simp
    have "digitsValue (digitsOf n) = 10 * int (n div 10) + int (n mod 10)"
      using 1 False of_char_digit [of "n mod 10"] by (simp only: e digitsValue_snoc) simp
    then show ?thesis by (simp add: zdiv_int zmod_int)
  qed
qed

lemma digit_not_space: "isDigit c \<Longrightarrow> \<not> isSpace c"
  by (auto simp: isDigit_def isSpace_def)

lemma trimmed_id:
  assumes "s \<noteq> []" and "\<not> isSpace (hd s)" and "\<not> isSpace (last s)"
  shows "trimmed s = s"
proof -
  have 1: "dropWhile isSpace s = s"
    using assms(1,2) by (cases s) simp_all
  have "rev s \<noteq> []" "\<not> isSpace (hd (rev s))"
    using assms(1,3) by (simp_all add: hd_rev)
  then have 2: "dropWhile isSpace (rev s) = rev s"
    by (cases "rev s") simp_all
  show ?thesis by (simp add: trimmed_def 1 2)
qed

lemma digits_hd_last:
  assumes "list_all isDigit ds" and "ds \<noteq> []"
  shows "isDigit (hd ds)" and "isDigit (last ds)"
  using assms by (simp_all add: list_all_iff)

lemma digit_no_sign: "isDigit c \<Longrightarrow> c \<noteq> CHR ''-'' \<and> c \<noteq> CHR ''+''"
  by (auto simp: isDigit_def)

lemma parseDecimal_number: "parseDecimal (number v) = Some v"
proof (cases "v < 0")
  case False
  let ?ds = "digitsOf (nat v)"
  have ne: "?ds \<noteq> []" by (rule digitsOf_nonempty)
  have dg: "list_all isDigit ?ds" by (rule digitsOf_digits)
  have t: "trimmed ?ds = ?ds"
    using ne digits_hd_last [OF dg ne] by (intro trimmed_id) (simp_all add: digit_not_space)
  obtain c cs where cs: "?ds = c # cs" using ne by (cases ?ds) auto
  have "isDigit c" using dg cs by simp
  then have ns: "c \<noteq> CHR ''-''" "c \<noteq> CHR ''+''" using digit_no_sign by auto
  have t': "trimmed (c # cs) = c # cs" using t by (simp only: cs)
  have dg': "list_all isDigit (c # cs)" using dg by (simp only: cs)
  have "parseDecimal (c # cs) = Some (digitsValue (c # cs))"
    using ns dg' by (simp add: parseDecimal_def t')
  then have "parseDecimal ?ds = Some (digitsValue ?ds)" by (simp only: cs)
  then show ?thesis using False by (simp add: number_def digitsValue_digitsOf)
next
  case True
  let ?ds = "digitsOf (nat (- v))"
  let ?s = "CHR ''-'' # ?ds"
  have ne: "?ds \<noteq> []" by (rule digitsOf_nonempty)
  have dg: "list_all isDigit ?ds" by (rule digitsOf_digits)
  have "\<not> isSpace (CHR ''-'')" by (simp add: isSpace_def)
  moreover have "\<not> isSpace (last ?s)"
    using ne digits_hd_last(2) [OF dg ne] by (simp add: digit_not_space)
  ultimately have t: "trimmed ?s = ?s" by (intro trimmed_id) simp_all
  have "parseDecimal ?s = Some (- digitsValue ?ds)"
    using ne dg by (simp add: parseDecimal_def t)
  then show ?thesis using True by (simp add: number_def digitsValue_digitsOf)
qed

lemma toInt_number: "INT_MIN \<le> v \<Longrightarrow> v \<le> INT_MAX \<Longrightarrow> toInt (number v) = v"
  by (simp add: toInt_def parseDecimal_number)

lemma int_round_trip:
  assumes "minimum s \<le> spinValue s" and "spinValue s \<le> maximum s"
    and "INT_MIN \<le> spinValue s" and "spinValue s \<le> INT_MAX"
  shows "fst (load q (IntParam n p d s)
           (readNext (newReader (out (save q (IntParam n p d s) newWriter)))))
         = IntParam n p d s"
  using assms
  by (simp add: load_def newReader_def readNext_def readerAttributes_def writeElement_def
      writeStartElement_def writeAttribute_def writeEndElement_def newWriter_def hasAttribute_def
      attrValue_def toInt_number setValue_def bound_def Let_def)

end
